theory Spec2Isabelle
  imports Complex_Main "HOL-Library.Word"
begin

section \<open>Python values\<close>

text \<open>
  Python strings are modelled as \<^typ>\<open>string\<close>, one \<^typ>\<open>char\<close> per code point below 256;
  \<^verbatim>\<open>bytes\<close> as a list of 8-bit words. A JSON value, as \<^verbatim>\<open>json.loads\<close> and
  \<^verbatim>\<open>request.get_json()\<close> produce it, is \<^verbatim>\<open>None\<close>, a bool, an int, a float (its value
  as a rational; \<^verbatim>\<open>nan\<close> and the infinities are left out), a str, a list or a dict.
  A dict is an association list in insertion order; its keys are distinct.
\<close>

type_synonym bytes = "8 word list"

datatype json =
    JNull
  | JBool bool
  | JInt int
  | JFloat rat
  | JStr string
  | JArr "json list"
  | JObj "(string \<times> json) list"

datatype exc_class =
    ValueError | JSONDecodeError | BinasciiError | TypeError | AttributeError
  | KeyError | IndexError | UnboundLocalError | HTTPException | OtherException

text \<open>
  A raised exception: its class and \<^verbatim>\<open>str(e)\<close>. A pydantic \<^verbatim>\<open>ValidationError\<close> carries the
  list of its errors, each with its type and location.
\<close>

datatype py_error =
    Raised exc_class string
  | ValidationError "(string \<times> json list) list"

text \<open>\<^verbatim>\<open>isinstance(e, ValueError)\<close>: the subclasses of ValueError among the classes above.\<close>

fun is_ValueError :: "py_error \<Rightarrow> bool" where
  "is_ValueError (Raised c m) = (c = ValueError \<or> c = JSONDecodeError \<or> c = BinasciiError)"
| "is_ValueError (ValidationError errs) = True"

subsection \<open>Truthiness, \<^verbatim>\<open>in\<close>, subscript and \<^verbatim>\<open>.get\<close>\<close>

fun truthy :: "json \<Rightarrow> bool" where
  "truthy JNull = False"
| "truthy (JBool b) = b"
| "truthy (JInt i) = (i \<noteq> 0)"
| "truthy (JFloat r) = (r \<noteq> 0)"
| "truthy (JStr s) = (s \<noteq> [])"
| "truthy (JArr xs) = (xs \<noteq> [])"
| "truthy (JObj kvs) = (kvs \<noteq> [])"

definition startswith :: "string \<Rightarrow> string \<Rightarrow> bool" where
  "startswith s p = (take (length p) s = p)"

fun substring :: "string \<Rightarrow> string \<Rightarrow> bool" where
  "substring p [] = (p = [])"
| "substring p (x # xs) = (startswith (x # xs) p \<or> substring p xs)"

text \<open>\<^verbatim>\<open>k in data\<close> for a str \<open>k\<close>.\<close>

fun py_in :: "string \<Rightarrow> json \<Rightarrow> py_error + bool" where
  "py_in k (JObj kvs) = Inr (k \<in> set (map fst kvs))"
| "py_in k (JArr xs) = Inr (JStr k \<in> set xs)"
| "py_in k (JStr s) = Inr (substring k s)"
| "py_in k _ = Inl (Raised TypeError ''argument is not iterable'')"

text \<open>\<^verbatim>\<open>data[k]\<close> for a str \<open>k\<close>.\<close>

fun getitem :: "json \<Rightarrow> string \<Rightarrow> py_error + json" where
  "getitem (JObj kvs) k =
     (case map_of kvs k of None \<Rightarrow> Inl (Raised KeyError k) | Some v \<Rightarrow> Inr v)"
| "getitem _ k = Inl (Raised TypeError ''indices must be integers or object is not subscriptable'')"

text \<open>\<^verbatim>\<open>data.get(k, default)\<close>: only a dict has the method.\<close>

fun py_get :: "json \<Rightarrow> string \<Rightarrow> json \<Rightarrow> py_error + json" where
  "py_get (JObj kvs) k d = Inr (case map_of kvs k of None \<Rightarrow> d | Some v \<Rightarrow> v)"
| "py_get _ k d = Inl (Raised AttributeError ''object has no attribute get'')"

subsection \<open>\<^verbatim>\<open>str.strip\<close>, \<^verbatim>\<open>str.split\<close>, \<^verbatim>\<open>str.join\<close> and the slice \<^verbatim>\<open>[1:-1]\<close>\<close>

text \<open>\<^verbatim>\<open>str.isspace\<close> on the code points below 256.\<close>

definition isspace :: "char \<Rightarrow> bool" where
  "isspace c = (of_char c \<in> {9, 10, 11, 12, 13, 28, 29, 30, 31, 32, 133, 160 :: nat})"

definition strip :: "string \<Rightarrow> string" where
  "strip s = rev (dropWhile isspace (rev (dropWhile isspace s)))"

text \<open>\<^verbatim>\<open>s.split(c)\<close> for a separator of one character: never the empty list.\<close>

fun str_split :: "string \<Rightarrow> char \<Rightarrow> string list" where
  "str_split [] c = [[]]"
| "str_split (x # xs) c =
     (if x = c then [] # str_split xs c
      else (case str_split xs c of [] \<Rightarrow> [[x]] | w # ws \<Rightarrow> (x # w) # ws))"

fun str_join :: "string \<Rightarrow> string list \<Rightarrow> string" where
  "str_join sep [] = []"
| "str_join sep [w] = w"
| "str_join sep (w # v # ws) = w @ sep @ str_join sep (v # ws)"

text \<open>\<^verbatim>\<open>xs[1:-1]\<close>: the elements at the indices 1 to \<open>length xs - 2\<close>.\<close>

definition slice_1_neg1 :: "'a list \<Rightarrow> 'a list" where
  "slice_1_neg1 xs = drop 1 (take (length xs - 1) xs)"

text \<open>\<^verbatim>\<open>xs[1]\<close> on a list.\<close>

definition index1 :: "'a list \<Rightarrow> py_error + 'a" where
  "index1 xs = (case xs of a # b # _ \<Rightarrow> Inr b | _ \<Rightarrow> Inl (Raised IndexError ''list index out of range''))"

section \<open>The libraries and the external model\<close>

text \<open>
  The handlers call \<^verbatim>\<open>json.loads\<close>, \<^verbatim>\<open>json.dumps\<close>, \<^verbatim>\<open>base64.b64decode\<close>, \<^verbatim>\<open>str()\<close> (inside
  \<^verbatim>\<open>str.format\<close>) and the model's \<^verbatim>\<open>generate_content(...).text\<close>. None of them is code of
  this repository: they are the fields of an environment, together with the process-wide
  \<^verbatim>\<open>GEMINI_API_KEY\<close> read from the environment at start.
\<close>

record env =
  GEMINI_API_KEY :: "string option"
  json_loads :: "string \<Rightarrow> py_error + json"
  json_dumps :: "json \<Rightarrow> string"
  json_dumps_indent2 :: "json \<Rightarrow> string"
  b64decode :: "string \<Rightarrow> py_error + bytes"
  py_str :: "json \<Rightarrow> string"
  generate_content :: "string \<times> bytes option \<Rightarrow> py_error + string"

text \<open>\<^verbatim>\<open>not GEMINI_API_KEY\<close> is false: the variable is set and not empty.\<close>

definition configured :: "env \<Rightarrow> bool" where
  "configured e = (case GEMINI_API_KEY e of None \<Rightarrow> False | Some k \<Rightarrow> k \<noteq> [])"

section \<open>Prompts and \<^verbatim>\<open>str.format\<close>\<close>

text \<open>
  A format string is the list of its pieces: literal text (with \<^verbatim>\<open>{{\<close> and \<^verbatim>\<open>}}\<close> already
  read as one brace) and named replacement fields. \<^verbatim>\<open>str.format\<close> raises KeyError for a
  field without a keyword argument, and renders an argument that is not a str with
  \<^verbatim>\<open>str()\<close>.
\<close>

datatype piece = Lit string | Field string

definition render :: "env \<Rightarrow> json \<Rightarrow> string" where
  "render e v = (case v of JStr s \<Rightarrow> s | _ \<Rightarrow> py_str e v)"

fun format_template :: "env \<Rightarrow> piece list \<Rightarrow> (string \<times> json) list \<Rightarrow> py_error + string" where
  "format_template e [] kw = Inr []"
| "format_template e (Lit s # ps) kw =
     (case format_template e ps kw of Inl err \<Rightarrow> Inl err | Inr r \<Rightarrow> Inr (s @ r))"
| "format_template e (Field f # ps) kw =
     (case map_of kw f of
        None \<Rightarrow> Inl (Raised KeyError f)
      | Some v \<Rightarrow>
          (case format_template e ps kw of Inl err \<Rightarrow> Inl err | Inr r \<Rightarrow> Inr (render e v @ r)))"

subsection \<open>The prompts of \<^verbatim>\<open>api/index.py\<close>\<close>

text \<open>\<^verbatim>\<open>ANALYZE_PROMPT\<close> is sent as it is, never formatted: its doubled braces stay.\<close>

definition ANALYZE_PROMPT :: string where
  "ANALYZE_PROMPT =
      ''Analyze this screenshot and extract structured information.\<newline>'' @
      ''\<newline>'' @
      ''## Task\<newline>'' @
      ''1. Perform OCR to extract all visible text from the image\<newline>'' @
      ''2. Identify the main entity types visible (hotel, restaurant, job posting, product, article, etc.)\<newline>'' @
      ''3. Write a 1-3 sentence summary of what the screenshot shows. Use objective language (e.g., \"A screenshot of...\", \"A photo showing...\"). Do NOT use phrases like \"The user is looking at\" or \"The image displays\".\<newline>'' @
      ''4. Extract structured entities with their attributes\<newline>'' @
      ''5. Suggest an appropriate category and notebook title\<newline>'' @
      ''\<newline>'' @
      ''## Categories\<newline>'' @
      ''- trip-planning: Hotels, flights, restaurants, travel\<newline>'' @
      ''- shopping: Products, electronics, clothing\<newline>'' @
      ''- job-search: Job postings, careers\<newline>'' @
      ''- research: Articles, documentation\<newline>'' @
      ''- content-writing: Writing, notes, drafts\<newline>'' @
      ''- productivity: Tasks, calendars, projects\<newline>'' @
      ''- other: Generic or unclear content\<newline>'' @
      ''\<newline>'' @
      ''## Output Format\<newline>'' @
      ''Return a valid JSON object:\<newline>'' @
      ''{{\<newline>'' @
      ''  \"rawText\": \"Full OCR text extracted from screenshot\",\<newline>'' @
      ''  \"summary\": \"1-3 sentence objective description (e.g., 'A screenshot of...'). Do NOT say 'The user is looking at...'.\",\<newline>'' @
      ''  \"category\": \"trip-planning|shopping|job-search|research|content-writing|productivity|other\",\<newline>'' @
      ''  \"entities\": [\<newline>'' @
      ''    {{\<newline>'' @
      ''      \"type\": \"hotel|product|job|flight|restaurant|article|other\",\<newline>'' @
      ''      \"title\": \"Entity name/title\",\<newline>'' @
      ''      \"attributes\": {{}}\<newline>'' @
      ''    }}\<newline>'' @
      ''  ],\<newline>'' @
      ''  \"suggestedNotebookTitle\": \"Short descriptive title for this content\"\<newline>'' @
      ''}}\<newline>'' @
      ''\<newline>'' @
      ''## Rules\<newline>'' @
      ''- Extract as much structured information as possible\<newline>'' @
      ''- For prices, include currency symbol\<newline>'' @
      ''- For ratings, normalize to a consistent format (e.g., \"4.8\")\<newline>'' @
      ''- Return ONLY valid JSON, no markdown code blocks\<newline>''"

definition REGENERATE_PROMPT :: "piece list" where
  "REGENERATE_PROMPT =
    [Lit (''You are an AI assistant for a screenshot capture app. The user has captured screenshots and is now asking a question or wants context about their session.\<newline>'' @
      ''\<newline>'' @
      ''## Session Context\<newline>'' @
      ''Category: ''),
     Field ''session_category'',
     Lit (''\<newline>'' @
      ''Previous Summary: ''),
     Field ''session_summary'',
     Lit (''\<newline>'' @
      ''\<newline>'' @
      ''## Captured Screenshots\<newline>''),
     Field ''screens_data'',
     Lit (''\<newline>'' @
      ''\<newline>'' @
      ''## Task\<newline>'' @
      ''Based on the captured screenshots and their extracted data, respond to the user's context or question embedded in the session summary.\<newline>'' @
      ''\<newline>'' @
      ''## Output Format\<newline>'' @
      ''Return a valid JSON object:\<newline>'' @
      ''{\<newline>'' @
      ''  \"sessionId\": \"''),
     Field ''session_id'',
     Lit (''\",\<newline>'' @
      ''  \"sessionSummary\": \"AI response or updated summary based on the screenshots and user's question\",\<newline>'' @
      ''  \"sessionCategory\": \"''),
     Field ''session_category'',
     Lit (''\",\<newline>'' @
      ''  \"entities\": [],\<newline>'' @
      ''  \"suggestedNotebookTitle\": \"Suggested title for this session\"\<newline>'' @
      ''}\<newline>'' @
      ''\<newline>'' @
      ''## Rules\<newline>'' @
      ''- Merge duplicate entities from different screenshots\<newline>'' @
      ''- Provide helpful, conversational responses\<newline>'' @
      ''- Return ONLY valid JSON, no markdown code blocks\<newline>'')]"

definition SUMMARIZE_PROMPT :: "piece list" where
  "SUMMARIZE_PROMPT =
    [Lit (''Generate a comprehensive summary of this research/capture session.\<newline>'' @
      ''\<newline>'' @
      ''## Session Name\<newline>''),
     Field ''session_name'',
     Lit (''\<newline>'' @
      ''\<newline>'' @
      ''## Entities to Summarize\<newline>''),
     Field ''entities_data'',
     Lit (''\<newline>'' @
      ''\<newline>'' @
      ''## Task\<newline>'' @
      ''Create a condensed but comprehensive summary with:\<newline>'' @
      ''1. A 2-4 sentence overview\<newline>'' @
      ''2. Top 3-5 key highlights\<newline>'' @
      ''3. 2-3 actionable recommendations\<newline>'' @
      ''4. Suggested follow-up queries\<newline>'' @
      ''5. Key topics/tags\<newline>'' @
      ''\<newline>'' @
      ''## Output Format\<newline>'' @
      ''Return a valid JSON object:\<newline>'' @
      ''{\<newline>'' @
      ''  \"condensedSummary\": \"2-4 sentence AI-generated overview\",\<newline>'' @
      ''  \"keyHighlights\": [\"Highlight 1\", \"Highlight 2\", \"Highlight 3\"],\<newline>'' @
      ''  \"recommendations\": [\"Recommendation 1\", \"Recommendation 2\"],\<newline>'' @
      ''  \"mergedEntities\": [],\<newline>'' @
      ''  \"suggestedTitle\": \"Concise title for this session\",\<newline>'' @
      ''  \"suggestedQueries\": [\"Follow-up question 1?\", \"Follow-up question 2?\"],\<newline>'' @
      ''  \"keywords\": [\"keyword1\", \"keyword2\", \"keyword3\"]\<newline>'' @
      ''}\<newline>'' @
      ''\<newline>'' @
      ''## Rules\<newline>'' @
      ''- Be concise but informative\<newline>'' @
      ''- Make recommendations actionable\<newline>'' @
      ''- Return ONLY valid JSON, no markdown code blocks\<newline>'')]"

subsection \<open>The prompts of \<^verbatim>\<open>prompts.py\<close>\<close>

definition prompts_ANALYZE_PROMPT :: "piece list" where
  "prompts_ANALYZE_PROMPT =
    [Lit (''You are an AI assistant that analyzes screenshots and extracts structured information.\<newline>'' @
      ''\<newline>'' @
      ''## Task\<newline>'' @
      ''1. Perform OCR to extract all visible text from the image\<newline>'' @
      ''2. Identify the main entity type (e.g., hotel, restaurant, job posting, product, article, etc.)\<newline>'' @
      ''3. Extract structured information based on the entity type\<newline>'' @
      ''4. Compare with existing entities to determine if this is the same entity (different page/view)\<newline>'' @
      ''\<newline>'' @
      ''## Existing Entities in Session\<newline>''),
     Field ''existing_entities'',
     Lit (''\<newline>'' @
      ''\<newline>'' @
      ''## Output Format\<newline>'' @
      ''Return a valid JSON object with this structure:\<newline>'' @
      ''{\<newline>'' @
      ''  \"raw_text\": \"All extracted text from the image...\",\<newline>'' @
      ''  \"entity\": {\<newline>'' @
      ''    \"type\": \"hotel|restaurant|job|product|article|other\",\<newline>'' @
      ''    \"is_new\": true|false,\<newline>'' @
      ''    \"merge_with_id\": \"uuid if merging with existing entity, null otherwise\",\<newline>'' @
      ''    \"confidence\": 0.0-1.0,\<newline>'' @
      ''    \"data\": {\<newline>'' @
      ''      // Structured data based on entity type\<newline>'' @
      ''      // For hotel: name, price, location, amenities[], rating, etc.\<newline>'' @
      ''      // For job: title, company, salary, location, requirements[], etc.\<newline>'' @
      ''      // For product: name, price, brand, features[], specs, etc.\<newline>'' @
      ''      // For restaurant: name, cuisine, price_range, location, rating, etc.\<newline>'' @
      ''      // Include all relevant fields found in the screenshot\<newline>'' @
      ''    }\<newline>'' @
      ''  }\<newline>'' @
      ''}\<newline>'' @
      ''\<newline>'' @
      ''## Rules\<newline>'' @
      ''- Extract as much structured information as possible\<newline>'' @
      ''- If the screenshot shows the same entity as an existing one (same hotel, job, etc.), set is_new=false and provide merge_with_id\<newline>'' @
      ''- Use context clues to determine entity type (URL, layout, keywords)\<newline>'' @
      ''- For prices, include currency symbol\<newline>'' @
      ''- For ratings, normalize to a consistent format\<newline>'' @
      ''- Return ONLY valid JSON, no markdown code blocks\<newline>'')]"

definition prompts_REGENERATE_PROMPT :: "piece list" where
  "prompts_REGENERATE_PROMPT =
    [Lit (''You are an AI assistant that synthesizes information from multiple screenshots.\<newline>'' @
      ''\<newline>'' @
      ''## Task\<newline>'' @
      ''Given the extracted data from multiple screenshots (after some deletions), create a unified summary.\<newline>'' @
      ''\<newline>'' @
      ''## Remaining Data\<newline>''),
     Field ''remaining_data'',
     Lit (''\<newline>'' @
      ''\<newline>'' @
      ''## Deleted Item IDs (exclude these)\<newline>''),
     Field ''deleted_ids'',
     Lit (''\<newline>'' @
      ''\<newline>'' @
      ''## Output Format\<newline>'' @
      ''Return a valid JSON array with consolidated entities:\<newline>'' @
      ''[\<newline>'' @
      ''  {\<newline>'' @
      ''    \"entity_type\": \"hotel|restaurant|job|product|article|other\",\<newline>'' @
      ''    \"source_screenshot_ids\": [\"uuid1\", \"uuid2\"],\<newline>'' @
      ''    \"data\": {\<newline>'' @
      ''      // Merged and consolidated data from all sources\<newline>'' @
      ''      // Combine information, prefer more detailed/recent data\<newline>'' @
      ''      // Remove any contradictory information from deleted sources\<newline>'' @
      ''    }\<newline>'' @
      ''  }\<newline>'' @
      '']\<newline>'' @
      ''\<newline>'' @
      ''## Rules\<newline>'' @
      ''- Merge information from multiple screenshots of the same entity\<newline>'' @
      ''- Remove any data that came exclusively from deleted screenshots\<newline>'' @
      ''- Consolidate duplicate information\<newline>'' @
      ''- Keep the most complete and accurate version of each field\<newline>'' @
      ''- Return ONLY valid JSON, no markdown code blocks\<newline>'')]"

section \<open>Utilities of \<^verbatim>\<open>api/index.py\<close>\<close>

definition fence :: string where
  "fence = [CHR 0x60, CHR 0x60, CHR 0x60]"

definition newline :: char where
  "newline = CHR 0x0A"

text \<open>
  The text \<^verbatim>\<open>parse_json_response\<close> hands to \<^verbatim>\<open>json.loads\<close>: the stripped response, without
  its first and last lines when it starts with a fence.
\<close>

definition unfenced :: "string \<Rightarrow> string" where
  "unfenced response_text =
     (let text = strip response_text in
      if startswith text fence
      then (let lines = str_split text newline in str_join [newline] (slice_1_neg1 lines))
      else text)"

definition parse_json_response :: "env \<Rightarrow> string \<Rightarrow> py_error + json" where
  "parse_json_response e response_text = json_loads e (unfenced response_text)"

definition decode_base64_image :: "env \<Rightarrow> json \<Rightarrow> py_error + bytes" where
  "decode_base64_image e image_data =
     (case image_data of
        JStr s \<Rightarrow>
          (if startswith s ''data:''
           then (case index1 (str_split s (CHR '','')) of
                   Inl err \<Rightarrow> Inl err
                 | Inr s' \<Rightarrow> b64decode e s')
           else b64decode e s)
      | _ \<Rightarrow> Inl (Raised AttributeError ''object has no attribute startswith''))"

section \<open>Endpoints of \<^verbatim>\<open>api/index.py\<close>\<close>

text \<open>
  A handler is run on the value \<^verbatim>\<open>request.get_json()\<close> returned (\<^const>\<open>JNull\<close> for
  \<^verbatim>\<open>None\<close>). Its outcome is the response (body and HTTP status), or the exception that
  leaves the view function, which Flask answers with status 500; with it comes the list of
  the calls made to the model, each the prompt and the image sent.

  \<^verbatim>\<open>request.get_json()\<close> is itself called inside the \<^verbatim>\<open>try\<close> block, and raises (an
  HTTPException of werkzeug) when the request has no body that parses as JSON. The view
  functions \<open>analyze_view\<close>, \<open>regenerate_view\<close>, \<open>summarize_view\<close> take what the call does,
  raise or return, and run the handler on the value returned.
\<close>

type_synonym call = "string \<times> bytes option"
type_synonym response = "json \<times> nat"
type_synonym outcome = "(py_error + response) \<times> call list"

definition http_status :: "outcome \<Rightarrow> nat" where
  "http_status out = (case fst out of Inl err \<Rightarrow> 500 | Inr (body, status) \<Rightarrow> status)"

definition get_model :: "env \<Rightarrow> py_error + string" where
  "get_model e =
     (if \<not> configured e then Inl (Raised ValueError ''GEMINI_API_KEY not configured'')
      else Inr ''gemini-2.0-flash'')"

definition error_body :: "string \<Rightarrow> json" where
  "error_body msg = JObj [(''error'', JStr msg)]"

subsection \<open>\<^verbatim>\<open>/api/analyze\<close>\<close>

definition analyze_try :: "env \<Rightarrow> json \<Rightarrow> outcome" where
  "analyze_try e data =
     (if \<not> truthy data then (Inr (error_body ''Missing 'image' field'', 400), [])
      else case py_in ''image'' data of Inl err \<Rightarrow> (Inl err, []) | Inr has_image \<Rightarrow>
      if \<not> has_image then (Inr (error_body ''Missing 'image' field'', 400), [])
      else case getitem data ''image'' of Inl err \<Rightarrow> (Inl err, []) | Inr image_data \<Rightarrow>
      case decode_base64_image e image_data of Inl err \<Rightarrow> (Inl err, []) | Inr image_bytes \<Rightarrow>
      case get_model e of Inl err \<Rightarrow> (Inl err, []) | Inr model \<Rightarrow>
      let c = (ANALYZE_PROMPT, Some image_bytes) in
      case generate_content e c of Inl err \<Rightarrow> (Inl err, [c]) | Inr response_text \<Rightarrow>
      case parse_json_response e response_text of Inl err \<Rightarrow> (Inl err, [c]) | Inr result \<Rightarrow>
      (Inr (result, 200), [c]))"

definition analyze_fallback :: json where
  "analyze_fallback =
     JObj [(''rawText'', JStr ''''), (''summary'', JStr ''''), (''category'', JStr ''other''),
           (''entities'', JArr []), (''suggestedNotebookTitle'', JNull)]"

definition analyze :: "env \<Rightarrow> json \<Rightarrow> outcome" where
  "analyze e data =
     (case analyze_try e data of
        (Inl err, calls) \<Rightarrow> (Inr (analyze_fallback, 200), calls)
      | (Inr r, calls) \<Rightarrow> (Inr r, calls))"

definition analyze_view :: "env \<Rightarrow> py_error + json \<Rightarrow> outcome" where
  "analyze_view e body =
     (case body of
        Inl err \<Rightarrow> (Inr (analyze_fallback, 200), [])
      | Inr data \<Rightarrow> analyze e data)"

subsection \<open>\<^verbatim>\<open>/api/regenerate\<close>\<close>

text \<open>The lines from \<^verbatim>\<open>session_id = data["sessionId"]\<close> to \<^verbatim>\<open>REGENERATE_PROMPT.format(...)\<close>.\<close>

definition regenerate_prompt :: "env \<Rightarrow> json \<Rightarrow> py_error + string" where
  "regenerate_prompt e data =
     (case getitem data ''sessionId'' of Inl err \<Rightarrow> Inl err | Inr session_id \<Rightarrow>
      case py_get data ''screens'' (JArr []) of Inl err \<Rightarrow> Inl err | Inr screens \<Rightarrow>
      case py_get data ''previousSession'' (JObj []) of Inl err \<Rightarrow> Inl err | Inr previous_session \<Rightarrow>
      let screens_data = json_dumps_indent2 e screens in
      case py_get previous_session ''sessionSummary'' (JStr ''No previous context'') of
        Inl err \<Rightarrow> Inl err | Inr session_summary \<Rightarrow>
      case py_get previous_session ''sessionCategory'' (JStr ''other'') of
        Inl err \<Rightarrow> Inl err | Inr session_category \<Rightarrow>
      format_template e REGENERATE_PROMPT
        [(''session_id'', session_id), (''session_category'', session_category),
         (''session_summary'', session_summary), (''screens_data'', JStr screens_data)])"

definition regenerate_try :: "env \<Rightarrow> json \<Rightarrow> outcome" where
  "regenerate_try e data =
     (if \<not> truthy data then (Inr (error_body ''Missing 'sessionId' field'', 400), [])
      else case py_in ''sessionId'' data of Inl err \<Rightarrow> (Inl err, []) | Inr has_session_id \<Rightarrow>
      if \<not> has_session_id then (Inr (error_body ''Missing 'sessionId' field'', 400), [])
      else case py_in ''screens'' data of Inl err \<Rightarrow> (Inl err, []) | Inr has_screens \<Rightarrow>
      if \<not> has_screens then (Inr (error_body ''Missing 'screens' field'', 400), [])
      else case regenerate_prompt e data of Inl err \<Rightarrow> (Inl err, []) | Inr prompt \<Rightarrow>
      case get_model e of Inl err \<Rightarrow> (Inl err, []) | Inr model \<Rightarrow>
      let c = (prompt, None) in
      case generate_content e c of Inl err \<Rightarrow> (Inl err, [c]) | Inr response_text \<Rightarrow>
      case parse_json_response e response_text of Inl err \<Rightarrow> (Inl err, [c]) | Inr result \<Rightarrow>
      (Inr (result, 200), [c]))"

text \<open>
  The \<^verbatim>\<open>except\<close> clause: \<^verbatim>\<open>data.get("sessionId", "") if data else ""\<close> is evaluated there,
  and raises for a \<open>data\<close> that is truthy and not a dict.
\<close>

definition regenerate_fallback :: "json \<Rightarrow> py_error + response" where
  "regenerate_fallback data =
     (case (if truthy data then py_get data ''sessionId'' (JStr '''') else Inr (JStr '''')) of
        Inl err \<Rightarrow> Inl err
      | Inr session_id \<Rightarrow>
          Inr (JObj [(''sessionId'', session_id), (''sessionSummary'', JStr ''''),
                     (''sessionCategory'', JStr ''other''), (''entities'', JArr []),
                     (''suggestedNotebookTitle'', JNull)], 200))"

definition regenerate :: "env \<Rightarrow> json \<Rightarrow> outcome" where
  "regenerate e data =
     (case regenerate_try e data of
        (Inl err, calls) \<Rightarrow> (regenerate_fallback data, calls)
      | (Inr r, calls) \<Rightarrow> (Inr r, calls))"

text \<open>
  When \<^verbatim>\<open>request.get_json()\<close> raises, \<open>data\<close> was never assigned: the \<^verbatim>\<open>except\<close> clause, which
  reads it, raises UnboundLocalError, and that exception leaves the view function.
\<close>

definition regenerate_view :: "env \<Rightarrow> py_error + json \<Rightarrow> outcome" where
  "regenerate_view e body =
     (case body of
        Inl err \<Rightarrow>
          (Inl (Raised UnboundLocalError
                  ''cannot access local variable 'data' where it is not associated with a value''),
           [])
      | Inr data \<Rightarrow> regenerate e data)"

subsection \<open>\<^verbatim>\<open>/api/summarize\<close>\<close>

text \<open>The lines from \<^verbatim>\<open>session_name = data["sessionName"]\<close> to \<^verbatim>\<open>SUMMARIZE_PROMPT.format(...)\<close>.\<close>

definition summarize_prompt :: "env \<Rightarrow> json \<Rightarrow> py_error + string" where
  "summarize_prompt e data =
     (case getitem data ''sessionName'' of Inl err \<Rightarrow> Inl err | Inr session_name \<Rightarrow>
      case getitem data ''entities'' of Inl err \<Rightarrow> Inl err | Inr entities \<Rightarrow>
      let entities_data = json_dumps_indent2 e entities in
      format_template e SUMMARIZE_PROMPT
        [(''session_name'', session_name), (''entities_data'', JStr entities_data)])"

definition summarize_try :: "env \<Rightarrow> json \<Rightarrow> outcome" where
  "summarize_try e data =
     (if \<not> truthy data then (Inr (error_body ''Missing 'sessionId' field'', 400), [])
      else case py_in ''sessionId'' data of Inl err \<Rightarrow> (Inl err, []) | Inr has_session_id \<Rightarrow>
      if \<not> has_session_id then (Inr (error_body ''Missing 'sessionId' field'', 400), [])
      else case py_in ''sessionName'' data of Inl err \<Rightarrow> (Inl err, []) | Inr has_session_name \<Rightarrow>
      if \<not> has_session_name then (Inr (error_body ''Missing 'sessionName' field'', 400), [])
      else case py_in ''entities'' data of Inl err \<Rightarrow> (Inl err, []) | Inr has_entities \<Rightarrow>
      if \<not> has_entities then (Inr (error_body ''Missing 'entities' field'', 400), [])
      else case summarize_prompt e data of Inl err \<Rightarrow> (Inl err, []) | Inr prompt \<Rightarrow>
      case get_model e of Inl err \<Rightarrow> (Inl err, []) | Inr model \<Rightarrow>
      let c = (prompt, None) in
      case generate_content e c of Inl err \<Rightarrow> (Inl err, [c]) | Inr response_text \<Rightarrow>
      case parse_json_response e response_text of Inl err \<Rightarrow> (Inl err, [c]) | Inr result \<Rightarrow>
      (Inr (result, 200), [c]))"

definition summarize_fallback :: json where
  "summarize_fallback =
     JObj [(''condensedSummary'', JStr ''''), (''keyHighlights'', JArr []),
           (''recommendations'', JArr []), (''mergedEntities'', JArr []),
           (''suggestedTitle'', JStr ''''), (''suggestedQueries'', JArr []),
           (''keywords'', JArr [])]"

definition summarize :: "env \<Rightarrow> json \<Rightarrow> outcome" where
  "summarize e data =
     (case summarize_try e data of
        (Inl err, calls) \<Rightarrow> (Inr (summarize_fallback, 200), calls)
      | (Inr r, calls) \<Rightarrow> (Inr r, calls))"

definition summarize_view :: "env \<Rightarrow> py_error + json \<Rightarrow> outcome" where
  "summarize_view e body =
     (case body of
        Inl err \<Rightarrow> (Inr (summarize_fallback, 200), [])
      | Inr data \<Rightarrow> summarize e data)"

section \<open>Request models of \<^verbatim>\<open>index.py\<close>\<close>

record ExistingEntity =
  entity_id :: string
  entity_type :: string
  entity_data :: "(string \<times> json) list"

record AnalyzeRequest =
  req_image :: string
  session_id :: string
  existing_entities :: "ExistingEntity list"

record ScreenshotData =
  screenshot_id :: string
  raw_text :: string
  screenshot_data :: "(string \<times> json) list"

record RegenerateRequest =
  regenerate_session_id :: string
  deleted_ids :: "string list"
  remaining_screenshots :: "ScreenshotData list"

text \<open>
  Pydantic validates the fields in their order and collects every error, each with its type
  and location; a model is built when there is none. A str field takes a str only, a list
  field a list, a dict field a dict, a model field a dict; keys that are no field are
  ignored.
\<close>

type_synonym verr = "string \<times> json list"
type_synonym 'a validated = "verr list + 'a"

definition errors_of :: "'a validated \<Rightarrow> verr list" where
  "errors_of r = (case r of Inl errs \<Rightarrow> errs | Inr x \<Rightarrow> [])"

definition check_str :: "json list \<Rightarrow> json \<Rightarrow> string validated" where
  "check_str loc v = (case v of JStr s \<Rightarrow> Inr s | _ \<Rightarrow> Inl [(''string_type'', loc)])"

definition check_dict :: "json list \<Rightarrow> json \<Rightarrow> (string \<times> json) list validated" where
  "check_dict loc v = (case v of JObj d \<Rightarrow> Inr d | _ \<Rightarrow> Inl [(''dict_type'', loc)])"

definition required ::
  "json list \<Rightarrow> (string \<times> json) list \<Rightarrow> string \<Rightarrow> (json list \<Rightarrow> json \<Rightarrow> 'a validated) \<Rightarrow> 'a validated" where
  "required loc kvs name check =
     (case map_of kvs name of
        None \<Rightarrow> Inl [(''missing'', loc @ [JStr name])]
      | Some v \<Rightarrow> check (loc @ [JStr name]) v)"

fun check_items ::
  "(json list \<Rightarrow> json \<Rightarrow> 'a validated) \<Rightarrow> json list \<Rightarrow> nat \<Rightarrow> json list \<Rightarrow> 'a list validated" where
  "check_items check loc i [] = Inr []"
| "check_items check loc i (v # vs) =
     (case (check (loc @ [JInt (int i)]) v, check_items check loc (Suc i) vs) of
        (Inr x, Inr xs) \<Rightarrow> Inr (x # xs)
      | (a, b) \<Rightarrow> Inl (errors_of a @ errors_of b))"

definition check_list ::
  "(json list \<Rightarrow> json \<Rightarrow> 'a validated) \<Rightarrow> json list \<Rightarrow> json \<Rightarrow> 'a list validated" where
  "check_list check loc v =
     (case v of JArr vs \<Rightarrow> check_items check loc 0 vs | _ \<Rightarrow> Inl [(''list_type'', loc)])"

definition check_ExistingEntity :: "json list \<Rightarrow> json \<Rightarrow> ExistingEntity validated" where
  "check_ExistingEntity loc v =
     (case v of
        JObj kvs \<Rightarrow>
          (case (required loc kvs ''id'' check_str, required loc kvs ''type'' check_str,
                 required loc kvs ''data'' check_dict) of
             (Inr i, Inr t, Inr d) \<Rightarrow> Inr \<lparr>entity_id = i, entity_type = t, entity_data = d\<rparr>
           | (a, b, c) \<Rightarrow> Inl (errors_of a @ errors_of b @ errors_of c))
      | _ \<Rightarrow> Inl [(''model_type'', loc)])"

definition check_ScreenshotData :: "json list \<Rightarrow> json \<Rightarrow> ScreenshotData validated" where
  "check_ScreenshotData loc v =
     (case v of
        JObj kvs \<Rightarrow>
          (case (required loc kvs ''id'' check_str, required loc kvs ''raw_text'' check_str,
                 required loc kvs ''data'' check_dict) of
             (Inr i, Inr t, Inr d) \<Rightarrow>
               Inr \<lparr>screenshot_id = i, raw_text = t, screenshot_data = d\<rparr>
           | (a, b, c) \<Rightarrow> Inl (errors_of a @ errors_of b @ errors_of c))
      | _ \<Rightarrow> Inl [(''model_type'', loc)])"

text \<open>
  \<^verbatim>\<open>AnalyzeRequest.validate_image\<close>: the IndexError of \<^verbatim>\<open>v.split(",")[1]\<close> leaves the
  validator as it is; whatever \<^verbatim>\<open>b64decode\<close> raises becomes a ValueError.
\<close>

definition validate_image :: "env \<Rightarrow> string \<Rightarrow> py_error + string" where
  "validate_image e v =
     (case (if startswith v ''data:'' then index1 (str_split v (CHR '','')) else Inr v) of
        Inl err \<Rightarrow> Inl err
      | Inr v' \<Rightarrow>
          (case b64decode e v' of
             Inl err \<Rightarrow> Inl (Raised ValueError ''Invalid base64 image data'')
           | Inr decoded \<Rightarrow> Inr v'))"

text \<open>
  \<^verbatim>\<open>AnalyzeRequest(**data)\<close>: a TypeError when \<open>data\<close> is no dict; a ValueError of the
  validator is one more validation error, any other exception of the validator leaves the
  constructor.
\<close>

definition new_AnalyzeRequest :: "env \<Rightarrow> json \<Rightarrow> py_error + AnalyzeRequest" where
  "new_AnalyzeRequest e data =
     (case data of
        JObj kvs \<Rightarrow>
          (case (case required [] kvs ''image'' check_str of
                   Inl errs \<Rightarrow> Inr (Inl errs)
                 | Inr v \<Rightarrow>
                     (case validate_image e v of
                        Inl err \<Rightarrow>
                          if is_ValueError err then Inr (Inl [(''value_error'', [JStr ''image''])])
                          else Inl err
                      | Inr v' \<Rightarrow> Inr (Inr v'))) of
             Inl err \<Rightarrow> Inl err
           | Inr image_field \<Rightarrow>
               (case (image_field, required [] kvs ''session_id'' check_str,
                      (case map_of kvs ''existing_entities'' of
                         None \<Rightarrow> Inr []
                       | Some v \<Rightarrow> check_list check_ExistingEntity [JStr ''existing_entities''] v)) of
                  (Inr i, Inr s, Inr es) \<Rightarrow>
                    Inr \<lparr>req_image = i, session_id = s, existing_entities = es\<rparr>
                | (a, b, c) \<Rightarrow> Inl (ValidationError (errors_of a @ errors_of b @ errors_of c))))
      | _ \<Rightarrow> Inl (Raised TypeError ''argument after ** must be a mapping''))"

definition new_RegenerateRequest :: "json \<Rightarrow> py_error + RegenerateRequest" where
  "new_RegenerateRequest data =
     (case data of
        JObj kvs \<Rightarrow>
          (case (required [] kvs ''session_id'' check_str,
                 required [] kvs ''deleted_ids'' (check_list check_str),
                 required [] kvs ''remaining_screenshots'' (check_list check_ScreenshotData)) of
             (Inr s, Inr ds, Inr rs) \<Rightarrow>
               Inr \<lparr>regenerate_session_id = s, deleted_ids = ds, remaining_screenshots = rs\<rparr>
           | (a, b, c) \<Rightarrow> Inl (ValidationError (errors_of a @ errors_of b @ errors_of c)))
      | _ \<Rightarrow> Inl (Raised TypeError ''argument after ** must be a mapping''))"

section \<open>Endpoints of \<^verbatim>\<open>index.py\<close>\<close>

text \<open>
  Both model functions normalise the response text as \<^verbatim>\<open>parse_json_response\<close> does
  (\<^const>\<open>unfenced\<close>), and turn a JSONDecodeError into a ValueError.
\<close>

definition loads_or_ValueError :: "env \<Rightarrow> string \<Rightarrow> py_error + json" where
  "loads_or_ValueError e response_text =
     (case json_loads e response_text of
        Inl (Raised JSONDecodeError m) \<Rightarrow>
          Inl (Raised ValueError (''Invalid JSON response from Gemini: '' @ m))
      | Inl err \<Rightarrow> Inl err
      | Inr result \<Rightarrow> Inr result)"

text \<open>The lines of \<^verbatim>\<open>analyze_with_gemini\<close> and \<^verbatim>\<open>regenerate_with_gemini\<close> that build the prompt.\<close>

definition gemini_analyze_prompt :: "env \<Rightarrow> json list \<Rightarrow> py_error + string" where
  "gemini_analyze_prompt e existing =
     (let entities_str = (if existing \<noteq> [] then json_dumps_indent2 e (JArr existing) else ''None'')
      in format_template e prompts_ANALYZE_PROMPT [(''existing_entities'', JStr entities_str)])"

definition gemini_regenerate_prompt :: "env \<Rightarrow> json list \<Rightarrow> string list \<Rightarrow> py_error + string" where
  "gemini_regenerate_prompt e remaining_data deleted =
     (let remaining_str = json_dumps_indent2 e (JArr remaining_data);
          deleted_str = json_dumps e (JArr (map JStr deleted))
      in format_template e prompts_REGENERATE_PROMPT
           [(''remaining_data'', JStr remaining_str), (''deleted_ids'', JStr deleted_str)])"

definition analyze_with_gemini :: "env \<Rightarrow> string \<Rightarrow> json list \<Rightarrow> (py_error + json) \<times> call list" where
  "analyze_with_gemini e image_base64 existing =
     (if \<not> configured e then (Inl (Raised ValueError ''GEMINI_API_KEY not configured''), [])
      else
        case gemini_analyze_prompt e existing of Inl err \<Rightarrow> (Inl err, []) | Inr prompt \<Rightarrow>
        case b64decode e image_base64 of Inl err \<Rightarrow> (Inl err, []) | Inr image_data \<Rightarrow>
        let c = (prompt, Some image_data) in
        case generate_content e c of Inl err \<Rightarrow> (Inl err, [c]) | Inr response_text \<Rightarrow>
        (loads_or_ValueError e (unfenced response_text), [c]))"

definition regenerate_with_gemini :: "env \<Rightarrow> json list \<Rightarrow> string list \<Rightarrow> (py_error + json) \<times> call list" where
  "regenerate_with_gemini e remaining_data deleted =
     (if \<not> configured e then (Inl (Raised ValueError ''GEMINI_API_KEY not configured''), [])
      else
        case gemini_regenerate_prompt e remaining_data deleted of
          Inl err \<Rightarrow> (Inl err, []) | Inr prompt \<Rightarrow>
        let c = (prompt, None) in
        case generate_content e c of Inl err \<Rightarrow> (Inl err, [c]) | Inr response_text \<Rightarrow>
        (loads_or_ValueError e (unfenced response_text), [c]))"

text \<open>
  The \<^verbatim>\<open>except\<close> clauses, the same in both handlers. Of \<^verbatim>\<open>e.errors()\<close> the type and the
  location of each error are kept (pydantic adds the message, the input and further
  context). For an error of type \<^verbatim>\<open>value_error\<close>, the one a ValueError of a validator
  becomes, that context holds the ValueError object itself, which \<^verbatim>\<open>jsonify\<close> cannot
  serialise: it raises TypeError inside the \<^verbatim>\<open>except ValidationError\<close> clause, where no
  other clause of the statement catches it, and the exception leaves the view function.
\<close>

definition errors_json :: "verr list \<Rightarrow> json" where
  "errors_json errs = JArr (map (\<lambda>(t, loc). JObj [(''type'', JStr t), (''loc'', JArr loc)]) errs)"

definition index_except :: "py_error \<Rightarrow> py_error + response" where
  "index_except err =
     (case err of
        ValidationError errs \<Rightarrow>
          if ''value_error'' \<in> set (map fst errs)
          then Inl (Raised TypeError ''Object of type ValueError is not JSON serializable'')
          else Inr (JObj [(''error'', JStr ''Invalid request''), (''details'', errors_json errs)], 400)
      | Raised c m \<Rightarrow>
          if is_ValueError err then Inr (error_body m, 400)
          else Inr (error_body ''Internal server error'', 500))"

text \<open>The dicts the handlers build from the validated request for the model functions.\<close>

definition existing_dicts :: "AnalyzeRequest \<Rightarrow> json list" where
  "existing_dicts req =
     map (\<lambda>x. JObj [(''id'', JStr (entity_id x)), (''type'', JStr (entity_type x)),
                     (''data'', JObj (entity_data x))]) (existing_entities req)"

definition remaining_dicts :: "RegenerateRequest \<Rightarrow> json list" where
  "remaining_dicts req =
     map (\<lambda>s. JObj [(''id'', JStr (screenshot_id s)), (''raw_text'', JStr (raw_text s)),
                     (''data'', JObj (screenshot_data s))]) (remaining_screenshots req)"

definition index_analyze_try :: "env \<Rightarrow> json \<Rightarrow> outcome" where
  "index_analyze_try e data =
     (if \<not> truthy data then (Inr (error_body ''No JSON data provided'', 400), [])
      else case new_AnalyzeRequest e data of Inl err \<Rightarrow> (Inl err, []) | Inr req \<Rightarrow>
      let existing = existing_dicts req in
      case analyze_with_gemini e (req_image req) existing of
        (Inl err, calls) \<Rightarrow> (Inl err, calls)
      | (Inr result, calls) \<Rightarrow> (Inr (result, 200), calls))"

definition index_analyze :: "env \<Rightarrow> json \<Rightarrow> outcome" where
  "index_analyze e data =
     (case index_analyze_try e data of
        (Inl err, calls) \<Rightarrow> (index_except err, calls)
      | (Inr r, calls) \<Rightarrow> (Inr r, calls))"

text \<open>The view function, given what \<^verbatim>\<open>request.get_json()\<close> does: raise or return.\<close>

definition index_analyze_view :: "env \<Rightarrow> py_error + json \<Rightarrow> outcome" where
  "index_analyze_view e body =
     (case body of
        Inl err \<Rightarrow> (index_except err, [])
      | Inr data \<Rightarrow> index_analyze e data)"

definition index_regenerate_try :: "env \<Rightarrow> json \<Rightarrow> outcome" where
  "index_regenerate_try e data =
     (if \<not> truthy data then (Inr (error_body ''No JSON data provided'', 400), [])
      else case new_RegenerateRequest data of Inl err \<Rightarrow> (Inl err, []) | Inr req \<Rightarrow>
      let remaining = remaining_dicts req in
      case regenerate_with_gemini e remaining (deleted_ids req) of
        (Inl err, calls) \<Rightarrow> (Inl err, calls)
      | (Inr result, calls) \<Rightarrow> (Inr (JObj [(''summary'', result)], 200), calls))"

definition index_regenerate :: "env \<Rightarrow> json \<Rightarrow> outcome" where
  "index_regenerate e data =
     (case index_regenerate_try e data of
        (Inl err, calls) \<Rightarrow> (index_except err, calls)
      | (Inr r, calls) \<Rightarrow> (Inr r, calls))"

definition index_regenerate_view :: "env \<Rightarrow> py_error + json \<Rightarrow> outcome" where
  "index_regenerate_view e body =
     (case body of
        Inl err \<Rightarrow> (index_except err, [])
      | Inr data \<Rightarrow> index_regenerate e data)"

section \<open>A stand-in environment\<close>

text \<open>
  A deterministic stand-in for the libraries and the model, to run the handlers at concrete
  inputs: the key and the model's answers are given; \<^verbatim>\<open>json.loads\<close> and \<^verbatim>\<open>b64decode\<close> are
  tables of a few inputs with the values the libraries give there, \<^verbatim>\<open>json.dumps\<close> the inverse
  table. (\<^verbatim>\<open>b64decode\<close> discards the characters outside the base64 alphabet before it
  decodes: \<^verbatim>\<open>aG,k=\<close> decodes as \<^verbatim>\<open>aGk=\<close> does, to the bytes of \<^verbatim>\<open>hi\<close>; \<^verbatim>\<open>aG\<close> alone lacks its
  padding.)
\<close>

definition consolidated_text :: string where
  "consolidated_text =
     ''[{\"entity_type\": \"hotel\", \"source_screenshot_ids\": [\"shot-2\"], \"data\": {}}]''"

definition consolidated_json :: json where
  "consolidated_json =
     JArr [JObj [(''entity_type'', JStr ''hotel''),
                 (''source_screenshot_ids'', JArr [JStr ''shot-2'']),
                 (''data'', JObj [])]]"

definition match_text :: string where
  "match_text =
     ''{\"raw_text\": \"Hotel A\", \"entity\": {\"type\": \"hotel\", \"is_new\": false, '' @
     ''\"merge_with_id\": \"ghost\", \"confidence\": 0.5, \"data\": {}}}''"

definition match_json :: json where
  "match_json =
     JObj [(''raw_text'', JStr ''Hotel A''),
           (''entity'', JObj [(''type'', JStr ''hotel''), (''is_new'', JBool False),
                              (''merge_with_id'', JStr ''ghost''), (''confidence'', JFloat (1 / 2)),
                              (''data'', JObj [])])]"

definition stub_loads :: "string \<Rightarrow> py_error + json" where
  "stub_loads s =
     (if s = ''{}'' then Inr (JObj [])
      else if s = ''[]'' then Inr (JArr [])
      else if s = ''null'' then Inr JNull
      else if s = consolidated_text then Inr consolidated_json
      else if s = match_text then Inr match_json
      else Inl (Raised JSONDecodeError ''Expecting value''))"

definition stub_dumps :: "json \<Rightarrow> string" where
  "stub_dumps v =
     (if v = JObj [] then ''{}''
      else if v = JArr [] then ''[]''
      else if v = consolidated_json then consolidated_text
      else if v = match_json then match_text
      else if v = JArr [JStr ''shot-2''] then ''[\"shot-2\"]''
      else ''null'')"

definition stub_dumps_indent2 :: "json \<Rightarrow> string" where
  "stub_dumps_indent2 v = (if v = JObj [] then ''{}'' else if v = JArr [] then ''[]'' else ''null'')"

definition stub_env :: "string option \<Rightarrow> (call \<Rightarrow> py_error + string) \<Rightarrow> env" where
  "stub_env key model =
     \<lparr>GEMINI_API_KEY = key, json_loads = stub_loads, json_dumps = stub_dumps,
      json_dumps_indent2 = stub_dumps_indent2,
      b64decode = (\<lambda>s. if s = ''aGk='' \<or> s = ''aG,k='' then Inr [0x68, 0x69]
                         else Inl (Raised BinasciiError ''Incorrect padding'')),
      py_str = (\<lambda>v. ''None''), generate_content = model\<rparr>"

section \<open>Strings: splitting, joining, searching\<close>

lemma str_split_not_Nil: "str_split s c \<noteq> []"
  by (induction s) (auto split: list.splits)

lemma str_split_no_sep: "c \<notin> set a \<Longrightarrow> str_split a c = [a]"
  by (induction a) auto

lemma str_split_append: "c \<notin> set a \<Longrightarrow> str_split (a @ c # b) c = a # str_split b c"
  by (induction a) auto

lemma str_join_split: "str_join [c] (str_split s c) = s"
proof (induction s)
  case Nil
  then show ?case by simp
next
  case (Cons x xs)
  obtain w ws where sp: "str_split xs c = w # ws"
    using str_split_not_Nil [of xs c] by (cases "str_split xs c") auto
  show ?case
  proof (cases "x = c")
    case True
    with Cons sp show ?thesis by simp
  next
    case False
    with Cons sp show ?thesis by (cases ws) auto
  qed
qed

lemma str_split_join:
  "ls \<noteq> [] \<Longrightarrow> \<forall>l \<in> set ls. c \<notin> set l \<Longrightarrow> str_split (str_join [c] ls) c = ls"
proof (induction ls)
  case Nil
  then show ?case by simp
next
  case (Cons w ws)
  show ?case
  proof (cases ws)
    case Nil
    with Cons.prems show ?thesis by (simp add: str_split_no_sep)
  next
    case (Cons v vs)
    with Cons.IH Cons.prems show ?thesis by (simp add: str_split_append)
  qed
qed

lemma str_split_lines: "\<forall>m \<in> set (str_split s c). c \<notin> set m"
  by (induction s) (auto split: list.splits)

lemma str_join_Cons: "ms \<noteq> [] \<Longrightarrow> str_join [c] (a # ms) = a @ c # str_join [c] ms"
  by (cases ms) auto

lemma str_join_snoc: "ms \<noteq> [] \<Longrightarrow> str_join [c] (ms @ [z]) = str_join [c] ms @ c # z"
proof (induction ms)
  case Nil
  then show ?case by simp
next
  case (Cons m ms)
  then show ?case by (cases ms) auto
qed

lemma slice_1_neg1_middle: "slice_1_neg1 (a # ms @ [b]) = ms"
  by (simp add: slice_1_neg1_def)

lemma strip_id:
  assumes "s \<noteq> []" "\<not> isspace (hd s)" "\<not> isspace (last s)"
  shows "strip s = s"
proof -
  have a: "dropWhile isspace s = s"
    using assms by (cases s) auto
  have "rev s \<noteq> []" "\<not> isspace (hd (rev s))"
    using assms by (simp_all add: hd_rev)
  then have b: "dropWhile isspace (rev s) = rev s"
    by (cases "rev s") auto
  show ?thesis by (simp add: strip_def a b)
qed

lemma substring_here: "substring p (p @ b)"
proof (cases "p @ b")
  case Nil
  then show ?thesis by simp
next
  case (Cons x xs)
  have "startswith (p @ b) p"
    by (simp add: startswith_def)
  with Cons show ?thesis by simp
qed

lemma substring_later: "substring p r \<Longrightarrow> substring p (a @ r)"
  by (induction a) auto

section \<open>The response parser\<close>

lemma unfenced_plain: "\<not> startswith (strip t) fence \<Longrightarrow> unfenced t = strip t"
  by (simp add: unfenced_def)

lemma unfenced_lines:
  assumes "startswith (strip t) fence"
    and "strip t = str_join [newline] (a # ms @ [z])"
    and "newline \<notin> set a" "newline \<notin> set z" "\<forall>m \<in> set ms. newline \<notin> set m"
  shows "unfenced t = str_join [newline] ms"
proof -
  have "str_split (strip t) newline = a # ms @ [z]"
    using assms(2-5) str_split_join [of "a # ms @ [z]" newline] by simp
  then show ?thesis
    using assms(1) by (simp add: unfenced_def slice_1_neg1_middle)
qed

lemma unfenced_one_line:
  assumes "startswith (strip t) fence" "newline \<notin> set (strip t)"
  shows "unfenced t = []"
  using assms by (simp add: unfenced_def str_split_no_sep slice_1_neg1_def)

lemma strip_fenced: "strip (fence @ s @ fence) = fence @ s @ fence"
  by (rule strip_id) (simp_all add: fence_def isspace_def)

lemma unfenced_fenced:
  assumes "newline \<notin> set tag"
  shows "unfenced (fence @ tag @ newline # body @ newline # fence) = body"
proof -
  let ?t = "fence @ tag @ newline # body @ newline # fence"
  let ?ms = "str_split body newline"
  have st: "strip ?t = ?t"
    using strip_fenced [of "tag @ newline # body @ [newline]"] by simp
  have sw: "startswith ?t fence"
    by (simp add: startswith_def)
  have nf: "newline \<notin> set fence"
    by (simp add: fence_def newline_def)
  have ne: "?ms \<noteq> []"
    by (rule str_split_not_Nil)
  have "str_join [newline] ((fence @ tag) # ?ms @ [fence])
        = (fence @ tag) @ newline # str_join [newline] (?ms @ [fence])"
    using ne by (simp add: str_join_Cons)
  also have "\<dots> = (fence @ tag) @ newline # str_join [newline] ?ms @ newline # fence"
    using ne by (simp add: str_join_snoc)
  also have "\<dots> = ?t"
    by (simp add: str_join_split)
  finally have j: "strip ?t = str_join [newline] ((fence @ tag) # ?ms @ [fence])"
    using st by simp
  have "unfenced ?t = str_join [newline] ?ms"
    using sw st assms nf str_split_lines [of body newline]
    by (intro unfenced_lines [OF _ j]) simp_all
  then show ?thesis
    by (simp add: str_join_split)
qed

lemma loads_or_ValueError_ok:
  "json_loads e s = Inr result \<Longrightarrow> loads_or_ValueError e s = Inr result"
  by (simp add: loads_or_ValueError_def)

lemma loads_or_ValueError_decode_error:
  "json_loads e s = Inl (Raised JSONDecodeError m) \<Longrightarrow>
   loads_or_ValueError e s = Inl (Raised ValueError (''Invalid JSON response from Gemini: '' @ m))"
  by (simp add: loads_or_ValueError_def)

subsection \<open>The stand-in environment\<close>

lemma strip_stub_texts:
  "strip ''{}'' = ''{}''" "strip ''[]'' = ''[]''" "strip ''null'' = ''null''"
  "strip consolidated_text = consolidated_text" "strip match_text = match_text"
  by (simp_all add: strip_def isspace_def consolidated_text_def match_text_def)

lemma stub_unfenced_texts:
  "unfenced ''[]'' = ''[]''" "unfenced ''{}'' = ''{}''"
  "unfenced consolidated_text = consolidated_text" "unfenced match_text = match_text"
  by (simp_all add: unfenced_def strip_stub_texts)
    (simp_all add: startswith_def fence_def consolidated_text_def match_text_def)

lemma stub_loads_texts:
  "stub_loads (unfenced ''[]'') = Inr (JArr [])" "stub_loads (unfenced ''{}'') = Inr (JObj [])"
  "stub_loads (unfenced consolidated_text) = Inr consolidated_json"
  "stub_loads (unfenced match_text) = Inr match_json"
  unfolding stub_unfenced_texts
  by (simp_all add: stub_loads_def consolidated_text_def match_text_def)

lemma stub_loads_accepts:
  "stub_loads s = Inr v \<Longrightarrow> \<not> startswith (strip s) fence \<and> stub_loads (strip s) = Inr v"
  by (auto simp add: stub_loads_def strip_stub_texts split: if_splits)
    (simp_all add: startswith_def fence_def consolidated_text_def match_text_def)

lemma stub_decode: "decode_base64_image (stub_env key model) (JStr ''aGk='') = Inr [0x68, 0x69]"
  by (simp add: decode_base64_image_def startswith_def stub_env_def)

lemma stub_parse_empty_object: "parse_json_response (stub_env key model) ''{}'' = Inr (JObj [])"
  by (simp add: parse_json_response_def unfenced_def strip_def isspace_def startswith_def fence_def
      stub_env_def stub_loads_def)

section \<open>Prompt construction\<close>

lemma format_template_total:
  "(\<forall>f. Field f \<in> set ps \<longrightarrow> map_of kw f \<noteq> None) \<Longrightarrow> \<exists>r. format_template e ps kw = Inr r"
proof (induction ps)
  case Nil
  then show ?case by simp
next
  case (Cons p ps)
  then obtain r where r: "format_template e ps kw = Inr r"
    by auto
  show ?case
  proof (cases p)
    case (Lit s)
    with r show ?thesis by simp
  next
    case (Field f)
    with Cons.prems obtain v where "map_of kw f = Some v"
      by auto
    with r Field show ?thesis by simp
  qed
qed

lemma format_template_renders:
  "format_template e ps kw = Inr r \<Longrightarrow> Field f \<in> set ps \<Longrightarrow> map_of kw f = Some v \<Longrightarrow>
   substring (render e v) r"
proof (induction ps arbitrary: r)
  case Nil
  then show ?case by simp
next
  case (Cons p ps)
  show ?case
  proof (cases p)
    case (Lit s)
    with Cons.prems obtain r' where r': "format_template e ps kw = Inr r'" "r = s @ r'"
      by (auto split: sum.splits)
    with Cons Lit have "substring (render e v) r'"
      by auto
    with r' show ?thesis
      by (simp add: substring_later)
  next
    case (Field g)
    with Cons.prems obtain w r' where r': "map_of kw g = Some w"
        "format_template e ps kw = Inr r'" "r = render e w @ r'"
      by (auto split: sum.splits option.splits)
    show ?thesis
    proof (cases "g = f")
      case True
      with r' Cons.prems(3) show ?thesis
        using substring_here [of "render e v" r'] by simp
    next
      case False
      with Cons Field r' have "substring (render e v) r'"
        by auto
      with r' show ?thesis
        by (simp add: substring_later)
    qed
  qed
qed

lemma format_REGENERATE_PROMPT:
  "\<exists>r. format_template e REGENERATE_PROMPT
         [(''session_id'', a), (''session_category'', b), (''session_summary'', c),
          (''screens_data'', d)] = Inr r"
  by (rule format_template_total) (auto simp add: REGENERATE_PROMPT_def)

lemma format_SUMMARIZE_PROMPT:
  "\<exists>r. format_template e SUMMARIZE_PROMPT [(''session_name'', a), (''entities_data'', b)] = Inr r"
  by (rule format_template_total) (auto simp add: SUMMARIZE_PROMPT_def)

lemma gemini_analyze_prompt_total: "\<exists>p. gemini_analyze_prompt e existing = Inr p"
  unfolding gemini_analyze_prompt_def Let_def
  by (rule format_template_total) (auto simp add: prompts_ANALYZE_PROMPT_def)

lemma gemini_regenerate_prompt_total: "\<exists>p. gemini_regenerate_prompt e remaining deleted = Inr p"
  unfolding gemini_regenerate_prompt_def Let_def
  by (rule format_template_total) (auto simp add: prompts_REGENERATE_PROMPT_def)

lemma gemini_analyze_prompt_renders:
  assumes "gemini_analyze_prompt e existing = Inr p"
  shows "substring (if existing \<noteq> [] then json_dumps_indent2 e (JArr existing) else ''None'') p"
proof -
  let ?s = "if existing \<noteq> [] then json_dumps_indent2 e (JArr existing) else ''None''"
  have f: "format_template e prompts_ANALYZE_PROMPT [(''existing_entities'', JStr ?s)] = Inr p"
    using assms by (simp add: gemini_analyze_prompt_def Let_def)
  have "substring (render e (JStr ?s)) p"
    by (rule format_template_renders [OF f, of "''existing_entities''"])
      (simp_all add: prompts_ANALYZE_PROMPT_def)
  then show ?thesis
    by (simp add: render_def)
qed

lemma gemini_regenerate_prompt_format:
  assumes "gemini_regenerate_prompt e remaining deleted = Inr p"
  shows "format_template e prompts_REGENERATE_PROMPT
       [(''remaining_data'', JStr (json_dumps_indent2 e (JArr remaining))),
        (''deleted_ids'', JStr (json_dumps e (JArr (map JStr deleted))))] = Inr p"
  using assms by (simp add: gemini_regenerate_prompt_def Let_def)

lemma gemini_regenerate_prompt_renders:
  assumes "gemini_regenerate_prompt e remaining deleted = Inr p"
  shows "substring (json_dumps_indent2 e (JArr remaining)) p"
    and "substring (json_dumps e (JArr (map JStr deleted))) p"
proof -
  note f = gemini_regenerate_prompt_format [OF assms]
  have "substring (render e (JStr (json_dumps_indent2 e (JArr remaining)))) p"
    by (rule format_template_renders [OF f, of "''remaining_data''"])
      (simp_all add: prompts_REGENERATE_PROMPT_def)
  then show "substring (json_dumps_indent2 e (JArr remaining)) p"
    by (simp add: render_def)
  have "substring (render e (JStr (json_dumps e (JArr (map JStr deleted))))) p"
    by (rule format_template_renders [OF f, of "''deleted_ids''"])
      (simp_all add: prompts_REGENERATE_PROMPT_def)
  then show "substring (json_dumps e (JArr (map JStr deleted))) p"
    by (simp add: render_def)
qed

lemma analyze_with_gemini_calls:
  assumes "configured e" "b64decode e img = Inr image_data" "gemini_analyze_prompt e existing = Inr p"
  shows "snd (analyze_with_gemini e img existing) = [(p, Some image_data)]"
  using assms by (simp add: analyze_with_gemini_def Let_def split: sum.splits)

lemma regenerate_with_gemini_calls:
  assumes "configured e" "gemini_regenerate_prompt e remaining deleted = Inr p"
  shows "snd (regenerate_with_gemini e remaining deleted) = [(p, None)]"
  using assms by (simp add: regenerate_with_gemini_def Let_def split: sum.splits)

lemma regenerate_prompt_no_previous:
  assumes "map_of kvs ''sessionId'' = Some sid" "map_of kvs ''previousSession'' = None"
  shows "regenerate_prompt e (JObj kvs) =
     format_template e REGENERATE_PROMPT
       [(''session_id'', sid), (''session_category'', JStr ''other''),
        (''session_summary'', JStr ''No previous context''),
        (''screens_data'',
           JStr (json_dumps_indent2 e (case map_of kvs ''screens'' of None \<Rightarrow> JArr [] | Some s \<Rightarrow> s)))]"
  using assms by (simp add: regenerate_prompt_def)

lemma regenerate_prompt_previous:
  assumes "map_of kvs ''sessionId'' = Some sid" "map_of kvs ''previousSession'' = Some (JObj prev)"
  shows "regenerate_prompt e (JObj kvs) =
     format_template e REGENERATE_PROMPT
       [(''session_id'', sid),
        (''session_category'',
           (case map_of prev ''sessionCategory'' of None \<Rightarrow> JStr ''other'' | Some v \<Rightarrow> v)),
        (''session_summary'',
           (case map_of prev ''sessionSummary'' of None \<Rightarrow> JStr ''No previous context'' | Some v \<Rightarrow> v)),
        (''screens_data'',
           JStr (json_dumps_indent2 e (case map_of kvs ''screens'' of None \<Rightarrow> JArr [] | Some s \<Rightarrow> s)))]"
  using assms by (simp add: regenerate_prompt_def)


lemma summarize_prompt_total:
  assumes "map_of kvs ''sessionName'' = Some name" "map_of kvs ''entities'' = Some ents"
  shows "\<exists>prompt. summarize_prompt e (JObj kvs) = Inr prompt"
  using assms format_SUMMARIZE_PROMPT [of e] by (simp add: summarize_prompt_def)

lemma regenerate_prompt_placeholder:
  assumes "map_of kvs ''sessionId'' = Some sid" "map_of kvs ''previousSession'' = None"
  shows "\<exists>p. regenerate_prompt e (JObj kvs) = Inr p \<and>
     format_template e REGENERATE_PROMPT
       [(''session_id'', sid), (''session_category'', JStr ''other''),
        (''session_summary'', JStr ''No previous context''),
        (''screens_data'',
           JStr (json_dumps_indent2 e (case map_of kvs ''screens'' of None \<Rightarrow> JArr [] | Some s \<Rightarrow> s)))] = Inr p \<and>
     substring ''No previous context'' p"
proof -
  let ?kw = "[(''session_id'', sid), (''session_category'', JStr ''other''),
        (''session_summary'', JStr ''No previous context''),
        (''screens_data'',
           JStr (json_dumps_indent2 e (case map_of kvs ''screens'' of None \<Rightarrow> JArr [] | Some s \<Rightarrow> s)))]"
  obtain p where p: "format_template e REGENERATE_PROMPT ?kw = Inr p"
    using format_REGENERATE_PROMPT [of e] by blast
  have "substring (render e (JStr ''No previous context'')) p"
    by (rule format_template_renders [OF p, of "''session_summary''"])
      (simp_all add: REGENERATE_PROMPT_def)
  then show ?thesis
    using p regenerate_prompt_no_previous [OF assms, of e] by (simp add: render_def)
qed

lemma regenerate_prompt_with_previous:
  assumes "map_of kvs ''sessionId'' = Some sid" "map_of kvs ''previousSession'' = Some (JObj prev)"
  shows "\<exists>p. regenerate_prompt e (JObj kvs) = Inr p \<and>
     format_template e REGENERATE_PROMPT
       [(''session_id'', sid),
        (''session_category'',
           (case map_of prev ''sessionCategory'' of None \<Rightarrow> JStr ''other'' | Some v \<Rightarrow> v)),
        (''session_summary'',
           (case map_of prev ''sessionSummary'' of None \<Rightarrow> JStr ''No previous context'' | Some v \<Rightarrow> v)),
        (''screens_data'',
           JStr (json_dumps_indent2 e (case map_of kvs ''screens'' of None \<Rightarrow> JArr [] | Some s \<Rightarrow> s)))] = Inr p"
  using regenerate_prompt_previous [OF assms, of e] format_REGENERATE_PROMPT [of e]
  by simp

section \<open>The handlers of \<^verbatim>\<open>api/index.py\<close> on an object body\<close>

lemma py_in_obj: "py_in k (JObj kvs) = Inr (map_of kvs k \<noteq> None)"
  by (simp add: map_of_eq_None_iff)

lemma truthy_obj: "map_of kvs k = Some v \<Longrightarrow> truthy (JObj kvs)"
  by (cases kvs) auto

lemma analyze_obj:
  assumes "map_of kvs ''image'' = Some img"
  shows "analyze e (JObj kvs) =
     (case decode_base64_image e img of
        Inl err \<Rightarrow> (Inr (analyze_fallback, 200), [])
      | Inr image_bytes \<Rightarrow>
          if \<not> configured e then (Inr (analyze_fallback, 200), [])
          else (case generate_content e (ANALYZE_PROMPT, Some image_bytes) of
                  Inl err \<Rightarrow> (Inr (analyze_fallback, 200), [(ANALYZE_PROMPT, Some image_bytes)])
                | Inr response_text \<Rightarrow>
                    (case parse_json_response e response_text of
                       Inl err \<Rightarrow> (Inr (analyze_fallback, 200), [(ANALYZE_PROMPT, Some image_bytes)])
                     | Inr result \<Rightarrow> (Inr (result, 200), [(ANALYZE_PROMPT, Some image_bytes)]))))"
  using assms truthy_obj [OF assms]
  by (simp add: analyze_def analyze_try_def py_in_obj get_model_def del: py_in.simps truthy.simps
      split: sum.splits)

lemma analyze_missing:
  assumes "\<not> truthy data \<or> (\<exists>kvs. data = JObj kvs \<and> map_of kvs ''image'' = None)"
  shows "analyze e data = (Inr (error_body ''Missing 'image' field'', 400), [])"
  using assms by (auto simp add: analyze_def analyze_try_def py_in_obj simp del: py_in.simps)

lemma regenerate_fallback_obj:
  "regenerate_fallback (JObj kvs) =
     Inr (JObj [(''sessionId'', (case map_of kvs ''sessionId'' of None \<Rightarrow> JStr [] | Some v \<Rightarrow> v)),
                (''sessionSummary'', JStr []), (''sessionCategory'', JStr ''other''),
                (''entities'', JArr []), (''suggestedNotebookTitle'', JNull)], 200)"
  by (cases kvs) (simp_all add: regenerate_fallback_def)

lemma regenerate_fallback_falsy:
  "\<not> truthy data \<Longrightarrow> regenerate_fallback data =
     Inr (JObj [(''sessionId'', JStr []),
                (''sessionSummary'', JStr []), (''sessionCategory'', JStr ''other''),
                (''entities'', JArr []), (''suggestedNotebookTitle'', JNull)], 200)"
  by (simp add: regenerate_fallback_def)

lemma views_returned:
  "analyze_view e (Inr data) = analyze e data"
  "regenerate_view e (Inr data) = regenerate e data"
  "summarize_view e (Inr data) = summarize e data"
  by (simp_all add: analyze_view_def regenerate_view_def summarize_view_def)

lemma views_raised:
  "analyze_view e (Inl err) = (Inr (analyze_fallback, 200), [])"
  "summarize_view e (Inl err) = (Inr (summarize_fallback, 200), [])"
  "regenerate_view e (Inl err) =
     (Inl (Raised UnboundLocalError
             ''cannot access local variable 'data' where it is not associated with a value''), [])"
  by (simp_all add: analyze_view_def regenerate_view_def summarize_view_def)



lemma regenerate_obj:
  assumes "map_of kvs ''sessionId'' = Some sid" "map_of kvs ''screens'' = Some scr"
  shows "regenerate e (JObj kvs) =
     (case regenerate_prompt e (JObj kvs) of
        Inl err \<Rightarrow> (regenerate_fallback (JObj kvs), [])
      | Inr prompt \<Rightarrow>
          if \<not> configured e then (regenerate_fallback (JObj kvs), [])
          else (case generate_content e (prompt, None) of
                  Inl err \<Rightarrow> (regenerate_fallback (JObj kvs), [(prompt, None)])
                | Inr response_text \<Rightarrow>
                    (case parse_json_response e response_text of
                       Inl err \<Rightarrow> (regenerate_fallback (JObj kvs), [(prompt, None)])
                     | Inr result \<Rightarrow> (Inr (result, 200), [(prompt, None)]))))"
  using assms truthy_obj [OF assms(1)]
  by (simp add: regenerate_def regenerate_try_def py_in_obj get_model_def
      del: py_in.simps truthy.simps split: sum.splits)

lemma regenerate_missing:
  "\<not> truthy data \<or> (\<exists>kvs. data = JObj kvs \<and> map_of kvs ''sessionId'' = None) \<Longrightarrow>
     regenerate e data = (Inr (error_body ''Missing 'sessionId' field'', 400), [])"
  "map_of kvs ''sessionId'' = Some sid \<Longrightarrow> map_of kvs ''screens'' = None \<Longrightarrow>
     regenerate e (JObj kvs) = (Inr (error_body ''Missing 'screens' field'', 400), [])"
  using truthy_obj [of kvs "''sessionId''" sid]
  by (auto simp add: regenerate_def regenerate_try_def py_in_obj simp del: py_in.simps truthy.simps)

lemma summarize_obj:
  assumes "map_of kvs ''sessionId'' = Some sid" "map_of kvs ''sessionName'' = Some name"
    "map_of kvs ''entities'' = Some ents"
  shows "summarize e (JObj kvs) =
     (case summarize_prompt e (JObj kvs) of
        Inl err \<Rightarrow> (Inr (summarize_fallback, 200), [])
      | Inr prompt \<Rightarrow>
          if \<not> configured e then (Inr (summarize_fallback, 200), [])
          else (case generate_content e (prompt, None) of
                  Inl err \<Rightarrow> (Inr (summarize_fallback, 200), [(prompt, None)])
                | Inr response_text \<Rightarrow>
                    (case parse_json_response e response_text of
                       Inl err \<Rightarrow> (Inr (summarize_fallback, 200), [(prompt, None)])
                     | Inr result \<Rightarrow> (Inr (result, 200), [(prompt, None)]))))"
  using assms truthy_obj [OF assms(1)]
  by (simp add: summarize_def summarize_try_def py_in_obj get_model_def
      del: py_in.simps truthy.simps split: sum.splits)

lemma summarize_missing:
  "\<not> truthy data \<or> (\<exists>kvs. data = JObj kvs \<and> map_of kvs ''sessionId'' = None) \<Longrightarrow>
     summarize e data = (Inr (error_body ''Missing 'sessionId' field'', 400), [])"
  "map_of kvs ''sessionId'' = Some sid \<Longrightarrow> map_of kvs ''sessionName'' = None \<Longrightarrow>
     summarize e (JObj kvs) = (Inr (error_body ''Missing 'sessionName' field'', 400), [])"
  "map_of kvs ''sessionId'' = Some sid \<Longrightarrow> map_of kvs ''sessionName'' = Some name \<Longrightarrow>
     map_of kvs ''entities'' = None \<Longrightarrow>
     summarize e (JObj kvs) = (Inr (error_body ''Missing 'entities' field'', 400), [])"
  using truthy_obj [of kvs "''sessionId''" sid]
  by (auto simp add: summarize_def summarize_try_def py_in_obj simp del: py_in.simps truthy.simps)

lemma analyze_status: "http_status (analyze e data) = 200 \<or> http_status (analyze e data) = 400"
  by (auto simp add: http_status_def analyze_def analyze_try_def Let_def
      split: sum.splits if_splits prod.splits)

lemma summarize_status: "http_status (summarize e data) = 200 \<or> http_status (summarize e data) = 400"
  by (auto simp add: http_status_def summarize_def summarize_try_def Let_def
      split: sum.splits if_splits prod.splits)

lemma regenerate_status:
  "http_status (regenerate e (JObj kvs)) = 200 \<or> http_status (regenerate e (JObj kvs)) = 400"
  by (auto simp add: http_status_def regenerate_def regenerate_try_def Let_def
      regenerate_fallback_obj simp del: py_in.simps truthy.simps
      split: sum.splits if_splits prod.splits)

lemma analyze_failure:
  assumes "map_of kvs ''image'' = Some img"
    and "\<not> configured e \<or> decode_base64_image e img = Inl err \<or>
      (\<exists>b. decode_base64_image e img = Inr b \<and>
         (generate_content e (ANALYZE_PROMPT, Some b) = Inl err \<or>
          (\<exists>t. generate_content e (ANALYZE_PROMPT, Some b) = Inr t \<and>
             parse_json_response e t = Inl err)))"
  shows "fst (analyze e (JObj kvs)) = Inr (analyze_fallback, 200)"
  using assms(2) by (auto simp add: analyze_obj [OF assms(1)] split: sum.splits)

lemma analyze_success:
  assumes "map_of kvs ''image'' = Some img" "configured e" "decode_base64_image e img = Inr b"
    "generate_content e (ANALYZE_PROMPT, Some b) = Inr t" "parse_json_response e t = Inr result"
  shows "analyze e (JObj kvs) = (Inr (result, 200), [(ANALYZE_PROMPT, Some b)])"
  using assms(2-) by (simp add: analyze_obj [OF assms(1)])

lemma regenerate_failure:
  assumes "map_of kvs ''sessionId'' = Some sid" "map_of kvs ''screens'' = Some scr"
    and "\<not> configured e \<or> regenerate_prompt e (JObj kvs) = Inl err \<or>
      (\<exists>p. regenerate_prompt e (JObj kvs) = Inr p \<and>
         (generate_content e (p, None) = Inl err \<or>
          (\<exists>t. generate_content e (p, None) = Inr t \<and> parse_json_response e t = Inl err)))"
  shows "fst (regenerate e (JObj kvs)) =
     Inr (JObj [(''sessionId'', sid), (''sessionSummary'', JStr []),
                (''sessionCategory'', JStr ''other''), (''entities'', JArr []),
                (''suggestedNotebookTitle'', JNull)], 200)"
  using assms(3) assms(1)
  by (auto simp add: regenerate_obj [OF assms(1,2)] regenerate_fallback_obj split: sum.splits)

lemma regenerate_success:
  assumes "map_of kvs ''sessionId'' = Some sid" "map_of kvs ''screens'' = Some scr" "configured e"
    "regenerate_prompt e (JObj kvs) = Inr p" "generate_content e (p, None) = Inr t"
    "parse_json_response e t = Inr result"
  shows "regenerate e (JObj kvs) = (Inr (result, 200), [(p, None)])"
  using assms(3-) by (simp add: regenerate_obj [OF assms(1,2)])

lemma summarize_failure:
  assumes "map_of kvs ''sessionId'' = Some sid" "map_of kvs ''sessionName'' = Some name"
    "map_of kvs ''entities'' = Some ents"
    and "\<not> configured e \<or> summarize_prompt e (JObj kvs) = Inl err \<or>
      (\<exists>p. summarize_prompt e (JObj kvs) = Inr p \<and>
         (generate_content e (p, None) = Inl err \<or>
          (\<exists>t. generate_content e (p, None) = Inr t \<and> parse_json_response e t = Inl err)))"
  shows "fst (summarize e (JObj kvs)) = Inr (summarize_fallback, 200)"
  using assms(4) by (auto simp add: summarize_obj [OF assms(1,2,3)] split: sum.splits)

lemma summarize_success:
  assumes "map_of kvs ''sessionId'' = Some sid" "map_of kvs ''sessionName'' = Some name"
    "map_of kvs ''entities'' = Some ents" "configured e"
    "summarize_prompt e (JObj kvs) = Inr p" "generate_content e (p, None) = Inr t"
    "parse_json_response e t = Inr result"
  shows "summarize e (JObj kvs) = (Inr (result, 200), [(p, None)])"
  using assms(4-) by (simp add: summarize_obj [OF assms(1,2,3)])



lemma str_split_first:
  "str_split s c =
     takeWhile (\<lambda>x. x \<noteq> c) s #
       (if c \<in> set s then str_split (tl (dropWhile (\<lambda>x. x \<noteq> c) s)) c else [])"
  by (induction s) auto

lemma index1_str_split:
  "index1 (str_split s c) =
     (if c \<in> set s then Inr (takeWhile (\<lambda>x. x \<noteq> c) (tl (dropWhile (\<lambda>x. x \<noteq> c) s)))
      else Inl (Raised IndexError ''list index out of range''))"
proof (cases "c \<in> set s")
  case True
  then have "str_split s c =
      takeWhile (\<lambda>x. x \<noteq> c) s # str_split (tl (dropWhile (\<lambda>x. x \<noteq> c) s)) c"
    using str_split_first [of s c] by simp
  moreover obtain ws where "str_split (tl (dropWhile (\<lambda>x. x \<noteq> c) s)) c =
      takeWhile (\<lambda>x. x \<noteq> c) (tl (dropWhile (\<lambda>x. x \<noteq> c) s)) # ws"
    using str_split_first [of "tl (dropWhile (\<lambda>x. x \<noteq> c) s)" c] by simp
  ultimately show ?thesis
    using True by (simp add: index1_def)
next
  case False
  then show ?thesis
    using str_split_first [of s c] by (simp add: index1_def)
qed

lemma decode_base64_image_data_url:
  assumes "startswith s ''data:''"
  shows "decode_base64_image e (JStr s) =
     (if CHR '','' \<in> set s
      then b64decode e (takeWhile (\<lambda>c. c \<noteq> CHR '','') (tl (dropWhile (\<lambda>c. c \<noteq> CHR '','') s)))
      else Inl (Raised IndexError ''list index out of range''))"
  using assms by (simp add: decode_base64_image_def index1_str_split)


lemma analyze_data_url_no_comma:
  assumes "startswith s ''data:''" "CHR '','' \<notin> set s" "map_of kvs ''image'' = Some (JStr s)"
  shows "analyze e (JObj kvs) = (Inr (analyze_fallback, 200), [])"
  using assms(2) by (simp add: analyze_obj [OF assms(3)] decode_base64_image_data_url [OF assms(1)])



section \<open>The handlers of \<^verbatim>\<open>index.py\<close>\<close>

subsection \<open>The types of the validation errors\<close>

lemma required_check_str_types:
  "''value_error'' \<notin> set (map fst (errors_of (required loc kvs name check_str)))"
  by (simp add: required_def check_str_def errors_of_def split: option.splits json.splits)

lemma required_check_dict_types:
  "''value_error'' \<notin> set (map fst (errors_of (required loc kvs name check_dict)))"
  by (simp add: required_def check_dict_def errors_of_def split: option.splits json.splits)

lemma check_str_types: "''value_error'' \<notin> set (map fst (errors_of (check_str loc v)))"
  by (simp add: check_str_def errors_of_def split: json.splits)

lemma check_items_types:
  assumes "\<And>loc v. ''value_error'' \<notin> set (map fst (errors_of (check loc v)))"
  shows "''value_error'' \<notin> set (map fst (errors_of (check_items check loc i vs)))"
proof (induction vs arbitrary: i)
  case Nil
  show ?case by (simp add: errors_of_def)
next
  case (Cons v vs)
  show ?case
    using assms [of "loc @ [JInt (int i)]" v] Cons [of "Suc i"]
    by (auto simp add: errors_of_def split: sum.splits)
qed

lemma check_list_types:
  assumes "\<And>loc v. ''value_error'' \<notin> set (map fst (errors_of (check loc v)))"
  shows "''value_error'' \<notin> set (map fst (errors_of (check_list check loc v)))"
proof (cases v)
  case (JArr vs)
  then show ?thesis
    using check_items_types [of check loc 0 vs, OF assms] by (simp add: check_list_def)
qed (simp_all add: check_list_def errors_of_def)

lemma check_ExistingEntity_types:
  "''value_error'' \<notin> set (map fst (errors_of (check_ExistingEntity loc v)))"
proof (cases v)
  case (JObj kvs)
  then show ?thesis
    using required_check_str_types [of loc kvs "''id''"] required_check_str_types [of loc kvs "''type''"]
      required_check_dict_types [of loc kvs "''data''"]
    by (auto simp add: check_ExistingEntity_def errors_of_def split: sum.splits)
qed (simp_all add: check_ExistingEntity_def errors_of_def)

lemma check_ScreenshotData_types:
  "''value_error'' \<notin> set (map fst (errors_of (check_ScreenshotData loc v)))"
proof (cases v)
  case (JObj kvs)
  then show ?thesis
    using required_check_str_types [of loc kvs "''id''"]
      required_check_str_types [of loc kvs "''raw_text''"]
      required_check_dict_types [of loc kvs "''data''"]
    by (auto simp add: check_ScreenshotData_def errors_of_def split: sum.splits)
qed (simp_all add: check_ScreenshotData_def errors_of_def)

lemma required_check_list_types:
  assumes "\<And>loc v. ''value_error'' \<notin> set (map fst (errors_of (check loc v)))"
  shows "''value_error'' \<notin> set (map fst (errors_of (required loc kvs name (check_list check))))"
  using check_list_types [of check, OF assms]
  by (simp add: required_def errors_of_def split: option.splits)

lemma new_RegenerateRequest_types:
  assumes "new_RegenerateRequest data = Inl err"
  shows "(\<exists>errs. err = ValidationError errs \<and> ''value_error'' \<notin> set (map fst errs)) \<or>
         err = Raised TypeError ''argument after ** must be a mapping''"
proof (cases data)
  case (JObj kvs)
  then show ?thesis
    using assms required_check_str_types [of "[]" kvs "''session_id''"]
      required_check_list_types [of check_str "[]" kvs "''deleted_ids''", OF check_str_types]
      required_check_list_types [of check_ScreenshotData "[]" kvs "''remaining_screenshots''",
        OF check_ScreenshotData_types]
    by (auto simp add: new_RegenerateRequest_def errors_of_def split: sum.splits)
qed (use assms in \<open>simp_all add: new_RegenerateRequest_def\<close>)

lemma new_AnalyzeRequest_types:
  assumes "\<forall>s. map_of kvs ''image'' = Some (JStr s) \<longrightarrow> (\<exists>v. validate_image e s = Inr v)"
    and "new_AnalyzeRequest e (JObj kvs) = Inl err"
  shows "\<exists>errs. err = ValidationError errs \<and> ''value_error'' \<notin> set (map fst errs)"
proof -
  have i: "''value_error'' \<notin> set (map fst (errors_of (required [] kvs ''image'' check_str)))"
    by (rule required_check_str_types)
  have s: "''value_error'' \<notin> set (map fst (errors_of (required [] kvs ''session_id'' check_str)))"
    by (rule required_check_str_types)
  have x: "''value_error'' \<notin> set (map fst (errors_of
             (case map_of kvs ''existing_entities'' of
                None \<Rightarrow> Inr []
              | Some v \<Rightarrow> check_list check_ExistingEntity [JStr ''existing_entities''] v)))"
    using check_list_types [of check_ExistingEntity, OF check_ExistingEntity_types]
    by (simp add: errors_of_def split: option.splits)
  show ?thesis
  proof (cases "required [] kvs ''image'' check_str")
    case (Inl errs)
    then show ?thesis
      using assms(2) i s x
      by (auto simp add: new_AnalyzeRequest_def errors_of_def split: sum.splits)
  next
    case (Inr v)
    then have "map_of kvs ''image'' = Some (JStr v)"
      by (auto simp add: required_def check_str_def split: option.splits json.splits)
    then obtain v' where "validate_image e v = Inr v'"
      using assms(1) by blast
    then show ?thesis
      using assms(2) Inr s x
      by (auto simp add: new_AnalyzeRequest_def errors_of_def split: sum.splits)
  qed
qed

subsection \<open>Requests that lack a field\<close>

lemma new_AnalyzeRequest_no_image:
  assumes "map_of kvs ''image'' = None"
  shows "\<exists>rest. new_AnalyzeRequest e (JObj kvs) =
           Inl (ValidationError ((''missing'', [JStr ''image'']) # rest))"
  using assms
  by (simp add: new_AnalyzeRequest_def required_def errors_of_def split: sum.splits prod.splits)

lemma new_AnalyzeRequest_no_session_id:
  assumes "map_of kvs ''session_id'' = None"
    and "\<forall>s. map_of kvs ''image'' = Some (JStr s) \<longrightarrow> (\<exists>v. validate_image e s = Inr v)"
  shows "\<exists>errs. new_AnalyzeRequest e (JObj kvs) = Inl (ValidationError errs) \<and>
           (''missing'', [JStr ''session_id'']) \<in> set errs"
proof (cases "required [] kvs ''image'' check_str")
  case (Inl errs)
  then show ?thesis
    using assms(1)
    by (simp add: new_AnalyzeRequest_def required_def errors_of_def split: sum.splits prod.splits)
next
  case (Inr v)
  then have "map_of kvs ''image'' = Some (JStr v)"
    by (auto simp add: required_def check_str_def split: option.splits json.splits)
  then obtain v' where "validate_image e v = Inr v'"
    using assms(2) by blast
  then show ?thesis
    using assms(1) Inr
    by (simp add: new_AnalyzeRequest_def errors_of_def split: sum.splits prod.splits)
      (simp add: required_def)
qed

lemma new_AnalyzeRequest_missing:
  assumes "f \<in> {''image'', ''session_id''}" "map_of kvs f = None"
    and "\<forall>s. map_of kvs ''image'' = Some (JStr s) \<longrightarrow> (\<exists>v. validate_image e s = Inr v)"
  shows "\<exists>errs. new_AnalyzeRequest e (JObj kvs) = Inl (ValidationError errs) \<and>
           (''missing'', [JStr f]) \<in> set errs \<and> ''value_error'' \<notin> set (map fst errs)"
proof -
  obtain errs where e: "new_AnalyzeRequest e (JObj kvs) = Inl (ValidationError errs)"
    and m: "(''missing'', [JStr f]) \<in> set errs"
    using assms new_AnalyzeRequest_no_image [of kvs e] new_AnalyzeRequest_no_session_id [of kvs e]
    by fastforce
  then show ?thesis
    using new_AnalyzeRequest_types [OF assms(3) e] by simp
qed

lemma new_RegenerateRequest_missing:
  assumes "f \<in> {''session_id'', ''deleted_ids'', ''remaining_screenshots''}" "map_of kvs f = None"
  shows "\<exists>errs. new_RegenerateRequest (JObj kvs) = Inl (ValidationError errs) \<and>
           (''missing'', [JStr f]) \<in> set errs"
  using assms
  by (auto simp add: new_RegenerateRequest_def required_def errors_of_def split: sum.splits prod.splits)

lemma index_analyze_missing:
  assumes "kvs \<noteq> []" "f \<in> {''image'', ''session_id''}" "map_of kvs f = None"
    and "\<forall>s. map_of kvs ''image'' = Some (JStr s) \<longrightarrow> (\<exists>v. validate_image e s = Inr v)"
  shows "\<exists>details. index_analyze e (JObj kvs) =
           (Inr (JObj [(''error'', JStr ''Invalid request''), (''details'', JArr details)], 400), []) \<and>
           JObj [(''type'', JStr ''missing''), (''loc'', JArr [JStr f])] \<in> set details"
proof -
  obtain errs where e: "new_AnalyzeRequest e (JObj kvs) = Inl (ValidationError errs)"
    and m: "(''missing'', [JStr f]) \<in> set errs" and t: "''value_error'' \<notin> set (map fst errs)"
    using new_AnalyzeRequest_missing [OF assms(2,3,4)] by blast
  have "JObj [(''type'', JStr ''missing''), (''loc'', JArr [JStr f])]
        \<in> set (map (\<lambda>(t, loc). JObj [(''type'', JStr t), (''loc'', JArr loc)]) errs)"
    using m by force
  then show ?thesis
    using assms(1) e t
    by (simp add: index_analyze_def index_analyze_try_def index_except_def errors_json_def)
qed

lemma validate_image_error:
  assumes "validate_image e s = Inl err"
  shows "err = Raised IndexError ''list index out of range'' \<or>
         err = Raised ValueError ''Invalid base64 image data''"
  using assms
  by (auto simp add: validate_image_def index1_def split: if_splits sum.splits list.splits)

lemma index_analyze_image_IndexError:
  assumes "map_of kvs ''image'' = Some (JStr s)"
    and "validate_image e s = Inl (Raised IndexError m)"
  shows "index_analyze e (JObj kvs) =
           (Inr (JObj [(''error'', JStr ''Internal server error'')], 500), [])"
proof -
  have "kvs \<noteq> []"
    using assms(1) by auto
  moreover have "new_AnalyzeRequest e (JObj kvs) = Inl (Raised IndexError m)"
    using assms by (simp add: new_AnalyzeRequest_def required_def check_str_def)
  ultimately show ?thesis
    by (simp add: index_analyze_def index_analyze_try_def index_except_def error_body_def)
qed

lemma index_analyze_image_ValueError:
  assumes "map_of kvs ''image'' = Some (JStr s)"
    and "validate_image e s = Inl (Raised ValueError m)"
  shows "index_analyze e (JObj kvs) =
           (Inl (Raised TypeError ''Object of type ValueError is not JSON serializable''), [])"
proof -
  have "kvs \<noteq> []"
    using assms(1) by auto
  moreover have "\<exists>rest. new_AnalyzeRequest e (JObj kvs) =
      Inl (ValidationError ((''value_error'', [JStr ''image'']) # rest))"
    using assms
    by (simp add: new_AnalyzeRequest_def required_def check_str_def errors_of_def
        split: sum.splits prod.splits)
  ultimately show ?thesis
    by (auto simp add: index_analyze_def index_analyze_try_def index_except_def)
qed

lemma index_analyze_image_rejected:
  assumes "map_of kvs ''image'' = Some (JStr s)" "validate_image e s = Inl err"
  shows "http_status (index_analyze e (JObj kvs)) = 500 \<and> snd (index_analyze e (JObj kvs)) = []"
  using validate_image_error [OF assms(2)] index_analyze_image_IndexError [OF assms(1), of e]
    index_analyze_image_ValueError [OF assms(1), of e] assms(2)
  by (auto simp add: http_status_def)

lemma index_regenerate_missing:
  assumes "kvs \<noteq> []" "f \<in> {''session_id'', ''deleted_ids'', ''remaining_screenshots''}"
    "map_of kvs f = None"
  shows "\<exists>details. index_regenerate e (JObj kvs) =
           (Inr (JObj [(''error'', JStr ''Invalid request''), (''details'', JArr details)], 400), []) \<and>
           JObj [(''type'', JStr ''missing''), (''loc'', JArr [JStr f])] \<in> set details"
proof -
  obtain errs where e: "new_RegenerateRequest (JObj kvs) = Inl (ValidationError errs)"
    and m: "(''missing'', [JStr f]) \<in> set errs"
    using new_RegenerateRequest_missing [OF assms(2,3)] by blast
  have "JObj [(''type'', JStr ''missing''), (''loc'', JArr [JStr f])]
        \<in> set (map (\<lambda>(t, loc). JObj [(''type'', JStr t), (''loc'', JArr loc)]) errs)"
    using m by force
  moreover have "''value_error'' \<notin> set (map fst errs)"
    using new_RegenerateRequest_types [OF e] by simp
  ultimately show ?thesis
    using assms(1) e
    by (simp add: index_regenerate_def index_regenerate_try_def index_except_def errors_json_def)
qed

lemma new_RegenerateRequest_truthy: "new_RegenerateRequest data = Inr req \<Longrightarrow> truthy data"
  by (cases data)
    (auto simp add: new_RegenerateRequest_def required_def split: json.splits list.splits)

lemma new_AnalyzeRequest_truthy: "new_AnalyzeRequest e data = Inr req \<Longrightarrow> truthy data"
  by (cases data)
    (auto simp add: new_AnalyzeRequest_def required_def split: json.splits list.splits)

lemma index_falsy:
  assumes "\<not> truthy data"
  shows "index_analyze e data = (Inr (JObj [(''error'', JStr ''No JSON data provided'')], 400), [])"
    and "index_regenerate e data = (Inr (JObj [(''error'', JStr ''No JSON data provided'')], 400), [])"
  using assms
  by (simp_all add: index_analyze_def index_analyze_try_def index_regenerate_def
      index_regenerate_try_def error_body_def)

lemma index_analyze_unconfigured:
  assumes "new_AnalyzeRequest e data = Inr req" "\<not> configured e"
  shows "index_analyze e data =
     (Inr (JObj [(''error'', JStr ''GEMINI_API_KEY not configured'')], 400), [])"
  using assms new_AnalyzeRequest_truthy [OF assms(1)]
  by (simp add: index_analyze_def index_analyze_try_def analyze_with_gemini_def index_except_def
      error_body_def)

lemma index_regenerate_unconfigured:
  assumes "new_RegenerateRequest data = Inr req" "\<not> configured e"
  shows "index_regenerate e data =
     (Inr (JObj [(''error'', JStr ''GEMINI_API_KEY not configured'')], 400), [])"
  using assms new_RegenerateRequest_truthy [OF assms(1)]
  by (simp add: index_regenerate_def index_regenerate_try_def regenerate_with_gemini_def
      index_except_def error_body_def)

lemma index_except_Raised:
  "index_except (Raised c m) =
     Inr (if c = ValueError \<or> c = JSONDecodeError \<or> c = BinasciiError
          then (JObj [(''error'', JStr m)], 400)
          else (JObj [(''error'', JStr ''Internal server error'')], 500))"
  by (simp add: index_except_def error_body_def)

lemma index_view_raised:
  "index_analyze_view e (Inl (Raised c m)) = (index_except (Raised c m), [])"
  "index_regenerate_view e (Inl (Raised c m)) = (index_except (Raised c m), [])"
  by (simp_all add: index_analyze_view_def index_regenerate_view_def)

lemma index_analyze_outcome:
  assumes "new_AnalyzeRequest e data = Inr req" "configured e"
    and "gemini_analyze_prompt e (existing_dicts req) = Inr p"
    and "b64decode e (req_image req) = Inr image_data"
  shows "index_analyze e data =
     (case generate_content e (p, Some image_data) of
        Inl err \<Rightarrow> (index_except err, [(p, Some image_data)])
      | Inr text \<Rightarrow>
          (case loads_or_ValueError e (unfenced text) of
             Inl err \<Rightarrow> (index_except err, [(p, Some image_data)])
           | Inr result \<Rightarrow> (Inr (result, 200), [(p, Some image_data)])))"
  using assms new_AnalyzeRequest_truthy [OF assms(1)]
  by (simp add: index_analyze_def index_analyze_try_def analyze_with_gemini_def Let_def
      split: sum.splits)

lemma index_regenerate_outcome:
  assumes "new_RegenerateRequest data = Inr req" "configured e"
    and "gemini_regenerate_prompt e (remaining_dicts req) (deleted_ids req) = Inr p"
  shows "index_regenerate e data =
     (case generate_content e (p, None) of
        Inl err \<Rightarrow> (index_except err, [(p, None)])
      | Inr text \<Rightarrow>
          (case loads_or_ValueError e (unfenced text) of
             Inl err \<Rightarrow> (index_except err, [(p, None)])
           | Inr result \<Rightarrow> (Inr (JObj [(''summary'', result)], 200), [(p, None)])))"
  using assms new_RegenerateRequest_truthy [OF assms(1)]
  by (simp add: index_regenerate_def index_regenerate_try_def regenerate_with_gemini_def Let_def
      split: sum.splits)


lemma index_regenerate_forwards:
  assumes "new_RegenerateRequest data = Inr req" "configured e"
    and "gemini_regenerate_prompt e (remaining_dicts req) (deleted_ids req) = Inr p"
    and "generate_content e (p, None) = Inr text" "json_loads e (unfenced text) = Inr result"
  shows "index_regenerate e data = (Inr (JObj [(''summary'', result)], 200), [(p, None)])"
  using assms(4,5) by (simp add: index_regenerate_outcome [OF assms(1-3)] loads_or_ValueError_ok)

subsection \<open>At a concrete request\<close>

lemma stub_regenerate_request:
  "new_RegenerateRequest
     (JObj [(''session_id'', JStr ''s1''), (''deleted_ids'', JArr [JStr ''shot-2'']),
            (''remaining_screenshots'', JArr [])]) =
   Inr \<lparr>regenerate_session_id = ''s1'', deleted_ids = [''shot-2''], remaining_screenshots = []\<rparr>"
  by (simp add: new_RegenerateRequest_def required_def check_str_def check_list_def errors_of_def)

lemma stub_analyze_request:
  "new_AnalyzeRequest (stub_env key model)
     (JObj [(''image'', JStr ''aGk=''), (''session_id'', JStr ''s1''), (''existing_entities'', JArr [])]) =
   Inr \<lparr>req_image = ''aGk='', session_id = ''s1'', existing_entities = []\<rparr>"
  by (simp add: new_AnalyzeRequest_def required_def check_str_def check_list_def errors_of_def
      validate_image_def startswith_def stub_env_def)

lemma stub_index_regenerate:
  assumes "generate_content e (p, None) = Inr text" "json_loads e (unfenced text) = Inr result"
    "configured e"
    "gemini_regenerate_prompt e
       (remaining_dicts \<lparr>regenerate_session_id = ''s1'', deleted_ids = [''shot-2''],
                          remaining_screenshots = []\<rparr>) [''shot-2''] = Inr p"
  shows "index_regenerate e
           (JObj [(''session_id'', JStr ''s1''), (''deleted_ids'', JArr [JStr ''shot-2'']),
                  (''remaining_screenshots'', JArr [])]) =
         (Inr (JObj [(''summary'', result)], 200), [(p, None)])"
  using index_regenerate_forwards [OF stub_regenerate_request assms(3) _ assms(1,2)] assms(4)
  by simp


subsection \<open>Failures after validation\<close>

lemma index_analyze_model_error:
  assumes "new_AnalyzeRequest e data = Inr req" "configured e"
    and "gemini_analyze_prompt e (existing_dicts req) = Inr p"
    and "b64decode e (req_image req) = Inr image_data"
    and "generate_content e (p, Some image_data) = Inl (Raised c m)"
  shows "fst (index_analyze e data) =
     Inr (if c = ValueError \<or> c = JSONDecodeError \<or> c = BinasciiError
          then (JObj [(''error'', JStr m)], 400)
          else (JObj [(''error'', JStr ''Internal server error'')], 500))"
  using assms(5) by (simp add: index_analyze_outcome [OF assms(1-4)] index_except_Raised)

lemma index_analyze_unparsable:
  assumes "new_AnalyzeRequest e data = Inr req" "configured e"
    and "gemini_analyze_prompt e (existing_dicts req) = Inr p"
    and "b64decode e (req_image req) = Inr image_data"
    and "generate_content e (p, Some image_data) = Inr text"
    and "json_loads e (unfenced text) = Inl (Raised JSONDecodeError m)"
  shows "fst (index_analyze e data) =
     Inr (JObj [(''error'', JStr (''Invalid JSON response from Gemini: '' @ m))], 400)"
  using assms(5) loads_or_ValueError_decode_error [OF assms(6)]
  by (simp add: index_analyze_outcome [OF assms(1-4)] index_except_Raised)

lemma index_regenerate_model_error:
  assumes "new_RegenerateRequest data = Inr req" "configured e"
    and "gemini_regenerate_prompt e (remaining_dicts req) (deleted_ids req) = Inr p"
    and "generate_content e (p, None) = Inl (Raised c m)"
  shows "fst (index_regenerate e data) =
     Inr (if c = ValueError \<or> c = JSONDecodeError \<or> c = BinasciiError
          then (JObj [(''error'', JStr m)], 400)
          else (JObj [(''error'', JStr ''Internal server error'')], 500))"
  using assms(4) by (simp add: index_regenerate_outcome [OF assms(1-3)] index_except_Raised)

lemma index_regenerate_unparsable:
  assumes "new_RegenerateRequest data = Inr req" "configured e"
    and "gemini_regenerate_prompt e (remaining_dicts req) (deleted_ids req) = Inr p"
    and "generate_content e (p, None) = Inr text"
    and "json_loads e (unfenced text) = Inl (Raised JSONDecodeError m)"
  shows "fst (index_regenerate e data) =
     Inr (JObj [(''error'', JStr (''Invalid JSON response from Gemini: '' @ m))], 400)"
  using assms(4) loads_or_ValueError_decode_error [OF assms(5)]
  by (simp add: index_regenerate_outcome [OF assms(1-3)] index_except_Raised)

section \<open>The claims\<close>

subsection \<open>C1: downstream failures\<close>

text \<open>
  C1, as the code has it. In \<^verbatim>\<open>api/index.py\<close>, for a request to analyze, regenerate or
  summarize whose body is an object with the required fields, every failure before a
  parsed result (key not configured, image that does not decode, prompt that cannot be
  built, model call that raises, answer that \<^verbatim>\<open>json.loads\<close> rejects) is answered 200 with
  the operation's fixed fallback body; an answer that parses is returned as it is with
  status 200, whatever its shape, since there is no schema check; and the status is 200 or
  400 for every object body, never 5xx. In \<^verbatim>\<open>index.py\<close>, for a request that passes validation,
  a key that is not configured, a ValueError of the model call and an answer that
  \<^verbatim>\<open>json.loads\<close> rejects are answered 400 with the error text, and any other exception of the
  model call is answered 500 \<^verbatim>\<open>Internal server error\<close>.
\<close>

theorem downstream_failure_fallback:
  "(map_of kvs ''image'' = Some img \<longrightarrow>
      ((\<not> configured e \<or> decode_base64_image e img = Inl err \<or>
        (\<exists>b. decode_base64_image e img = Inr b \<and>
           (generate_content e (ANALYZE_PROMPT, Some b) = Inl err \<or>
            (\<exists>t. generate_content e (ANALYZE_PROMPT, Some b) = Inr t \<and>
               parse_json_response e t = Inl err)))) \<longrightarrow>
       fst (analyze e (JObj kvs)) =
         Inr (JObj [(''rawText'', JStr []), (''summary'', JStr []), (''category'', JStr ''other''),
                    (''entities'', JArr []), (''suggestedNotebookTitle'', JNull)], 200)) \<and>
      (\<forall>b t result. configured e \<and> decode_base64_image e img = Inr b \<and>
         generate_content e (ANALYZE_PROMPT, Some b) = Inr t \<and>
         parse_json_response e t = Inr result \<longrightarrow>
         analyze e (JObj kvs) = (Inr (result, 200), [(ANALYZE_PROMPT, Some b)]))) \<and>
   (map_of kvs ''sessionId'' = Some sid \<and> map_of kvs ''screens'' = Some scr \<longrightarrow>
      ((\<not> configured e \<or> regenerate_prompt e (JObj kvs) = Inl err \<or>
        (\<exists>p. regenerate_prompt e (JObj kvs) = Inr p \<and>
           (generate_content e (p, None) = Inl err \<or>
            (\<exists>t. generate_content e (p, None) = Inr t \<and>
               parse_json_response e t = Inl err)))) \<longrightarrow>
       fst (regenerate e (JObj kvs)) =
         Inr (JObj [(''sessionId'', sid), (''sessionSummary'', JStr []),
                    (''sessionCategory'', JStr ''other''), (''entities'', JArr []),
                    (''suggestedNotebookTitle'', JNull)], 200)) \<and>
      (\<forall>p t result. configured e \<and> regenerate_prompt e (JObj kvs) = Inr p \<and>
         generate_content e (p, None) = Inr t \<and> parse_json_response e t = Inr result \<longrightarrow>
         regenerate e (JObj kvs) = (Inr (result, 200), [(p, None)]))) \<and>
   (map_of kvs ''sessionId'' = Some sid \<and> map_of kvs ''sessionName'' = Some name \<and>
    map_of kvs ''entities'' = Some ents \<longrightarrow>
      ((\<not> configured e \<or> summarize_prompt e (JObj kvs) = Inl err \<or>
        (\<exists>p. summarize_prompt e (JObj kvs) = Inr p \<and>
           (generate_content e (p, None) = Inl err \<or>
            (\<exists>t. generate_content e (p, None) = Inr t \<and>
               parse_json_response e t = Inl err)))) \<longrightarrow>
       fst (summarize e (JObj kvs)) =
         Inr (JObj [(''condensedSummary'', JStr []), (''keyHighlights'', JArr []),
                    (''recommendations'', JArr []), (''mergedEntities'', JArr []),
                    (''suggestedTitle'', JStr []), (''suggestedQueries'', JArr []),
                    (''keywords'', JArr [])], 200)) \<and>
      (\<forall>p t result. configured e \<and> summarize_prompt e (JObj kvs) = Inr p \<and>
         generate_content e (p, None) = Inr t \<and> parse_json_response e t = Inr result \<longrightarrow>
         summarize e (JObj kvs) = (Inr (result, 200), [(p, None)]))) \<and>
   http_status (analyze e (JObj kvs)) \<in> {200, 400} \<and>
   http_status (regenerate e (JObj kvs)) \<in> {200, 400} \<and>
   http_status (summarize e (JObj kvs)) \<in> {200, 400} \<and>
   (new_AnalyzeRequest e data = Inr areq \<longrightarrow>
      (\<not> configured e \<longrightarrow>
         index_analyze e data =
           (Inr (JObj [(''error'', JStr ''GEMINI_API_KEY not configured'')], 400), [])) \<and>
      (\<forall>p image_data. configured e \<and> gemini_analyze_prompt e (existing_dicts areq) = Inr p \<and>
         b64decode e (req_image areq) = Inr image_data \<longrightarrow>
         (\<forall>c m. generate_content e (p, Some image_data) = Inl (Raised c m) \<longrightarrow>
            fst (index_analyze e data) =
              Inr (if c = ValueError \<or> c = JSONDecodeError \<or> c = BinasciiError
                   then (JObj [(''error'', JStr m)], 400)
                   else (JObj [(''error'', JStr ''Internal server error'')], 500))) \<and>
         (\<forall>t m. generate_content e (p, Some image_data) = Inr t \<and>
            json_loads e (unfenced t) = Inl (Raised JSONDecodeError m) \<longrightarrow>
            fst (index_analyze e data) =
              Inr (JObj [(''error'', JStr (''Invalid JSON response from Gemini: '' @ m))], 400)))) \<and>
   (new_RegenerateRequest data = Inr rreq \<longrightarrow>
      (\<not> configured e \<longrightarrow>
         index_regenerate e data =
           (Inr (JObj [(''error'', JStr ''GEMINI_API_KEY not configured'')], 400), [])) \<and>
      (\<forall>p. configured e \<and>
         gemini_regenerate_prompt e (remaining_dicts rreq) (deleted_ids rreq) = Inr p \<longrightarrow>
         (\<forall>c m. generate_content e (p, None) = Inl (Raised c m) \<longrightarrow>
            fst (index_regenerate e data) =
              Inr (if c = ValueError \<or> c = JSONDecodeError \<or> c = BinasciiError
                   then (JObj [(''error'', JStr m)], 400)
                   else (JObj [(''error'', JStr ''Internal server error'')], 500))) \<and>
         (\<forall>t m. generate_content e (p, None) = Inr t \<and>
            json_loads e (unfenced t) = Inl (Raised JSONDecodeError m) \<longrightarrow>
            fst (index_regenerate e data) =
              Inr (JObj [(''error'', JStr (''Invalid JSON response from Gemini: '' @ m))], 400))))"
proof (intro conjI)
  show "map_of kvs ''image'' = Some img \<longrightarrow>
      ((\<not> configured e \<or> decode_base64_image e img = Inl err \<or>
        (\<exists>b. decode_base64_image e img = Inr b \<and>
           (generate_content e (ANALYZE_PROMPT, Some b) = Inl err \<or>
            (\<exists>t. generate_content e (ANALYZE_PROMPT, Some b) = Inr t \<and>
               parse_json_response e t = Inl err)))) \<longrightarrow>
       fst (analyze e (JObj kvs)) =
         Inr (JObj [(''rawText'', JStr []), (''summary'', JStr []), (''category'', JStr ''other''),
                    (''entities'', JArr []), (''suggestedNotebookTitle'', JNull)], 200)) \<and>
      (\<forall>b t result. configured e \<and> decode_base64_image e img = Inr b \<and>
         generate_content e (ANALYZE_PROMPT, Some b) = Inr t \<and>
         parse_json_response e t = Inr result \<longrightarrow>
         analyze e (JObj kvs) = (Inr (result, 200), [(ANALYZE_PROMPT, Some b)]))"
    using analyze_failure [of kvs img e err] analyze_success [of kvs img e]
    by (simp add: analyze_fallback_def)
next
  show "map_of kvs ''sessionId'' = Some sid \<and> map_of kvs ''screens'' = Some scr \<longrightarrow>
      ((\<not> configured e \<or> regenerate_prompt e (JObj kvs) = Inl err \<or>
        (\<exists>p. regenerate_prompt e (JObj kvs) = Inr p \<and>
           (generate_content e (p, None) = Inl err \<or>
            (\<exists>t. generate_content e (p, None) = Inr t \<and>
               parse_json_response e t = Inl err)))) \<longrightarrow>
       fst (regenerate e (JObj kvs)) =
         Inr (JObj [(''sessionId'', sid), (''sessionSummary'', JStr []),
                    (''sessionCategory'', JStr ''other''), (''entities'', JArr []),
                    (''suggestedNotebookTitle'', JNull)], 200)) \<and>
      (\<forall>p t result. configured e \<and> regenerate_prompt e (JObj kvs) = Inr p \<and>
         generate_content e (p, None) = Inr t \<and> parse_json_response e t = Inr result \<longrightarrow>
         regenerate e (JObj kvs) = (Inr (result, 200), [(p, None)]))"
    using regenerate_failure [of kvs sid scr e err] regenerate_success [of kvs sid scr e]
    by simp
next
  show "map_of kvs ''sessionId'' = Some sid \<and> map_of kvs ''sessionName'' = Some name \<and>
    map_of kvs ''entities'' = Some ents \<longrightarrow>
      ((\<not> configured e \<or> summarize_prompt e (JObj kvs) = Inl err \<or>
        (\<exists>p. summarize_prompt e (JObj kvs) = Inr p \<and>
           (generate_content e (p, None) = Inl err \<or>
            (\<exists>t. generate_content e (p, None) = Inr t \<and>
               parse_json_response e t = Inl err)))) \<longrightarrow>
       fst (summarize e (JObj kvs)) =
         Inr (JObj [(''condensedSummary'', JStr []), (''keyHighlights'', JArr []),
                    (''recommendations'', JArr []), (''mergedEntities'', JArr []),
                    (''suggestedTitle'', JStr []), (''suggestedQueries'', JArr []),
                    (''keywords'', JArr [])], 200)) \<and>
      (\<forall>p t result. configured e \<and> summarize_prompt e (JObj kvs) = Inr p \<and>
         generate_content e (p, None) = Inr t \<and> parse_json_response e t = Inr result \<longrightarrow>
         summarize e (JObj kvs) = (Inr (result, 200), [(p, None)]))"
    using summarize_failure [of kvs sid name ents e err] summarize_success [of kvs sid name ents e]
    by (simp add: summarize_fallback_def)
next
  show "http_status (analyze e (JObj kvs)) \<in> {200, 400}"
    using analyze_status [of e "JObj kvs"] by simp
next
  show "http_status (regenerate e (JObj kvs)) \<in> {200, 400}"
    using regenerate_status [of e kvs] by simp
next
  show "http_status (summarize e (JObj kvs)) \<in> {200, 400}"
    using summarize_status [of e "JObj kvs"] by simp
next
  show "new_AnalyzeRequest e data = Inr areq \<longrightarrow>
      (\<not> configured e \<longrightarrow>
         index_analyze e data =
           (Inr (JObj [(''error'', JStr ''GEMINI_API_KEY not configured'')], 400), [])) \<and>
      (\<forall>p image_data. configured e \<and> gemini_analyze_prompt e (existing_dicts areq) = Inr p \<and>
         b64decode e (req_image areq) = Inr image_data \<longrightarrow>
         (\<forall>c m. generate_content e (p, Some image_data) = Inl (Raised c m) \<longrightarrow>
            fst (index_analyze e data) =
              Inr (if c = ValueError \<or> c = JSONDecodeError \<or> c = BinasciiError
                   then (JObj [(''error'', JStr m)], 400)
                   else (JObj [(''error'', JStr ''Internal server error'')], 500))) \<and>
         (\<forall>t m. generate_content e (p, Some image_data) = Inr t \<and>
            json_loads e (unfenced t) = Inl (Raised JSONDecodeError m) \<longrightarrow>
            fst (index_analyze e data) =
              Inr (JObj [(''error'', JStr (''Invalid JSON response from Gemini: '' @ m))], 400)))"
    using index_analyze_unconfigured [of e data areq] index_analyze_model_error [of e data areq]
      index_analyze_unparsable [of e data areq]
    by blast
next
  show "new_RegenerateRequest data = Inr rreq \<longrightarrow>
      (\<not> configured e \<longrightarrow>
         index_regenerate e data =
           (Inr (JObj [(''error'', JStr ''GEMINI_API_KEY not configured'')], 400), [])) \<and>
      (\<forall>p. configured e \<and>
         gemini_regenerate_prompt e (remaining_dicts rreq) (deleted_ids rreq) = Inr p \<longrightarrow>
         (\<forall>c m. generate_content e (p, None) = Inl (Raised c m) \<longrightarrow>
            fst (index_regenerate e data) =
              Inr (if c = ValueError \<or> c = JSONDecodeError \<or> c = BinasciiError
                   then (JObj [(''error'', JStr m)], 400)
                   else (JObj [(''error'', JStr ''Internal server error'')], 500))) \<and>
         (\<forall>t m. generate_content e (p, None) = Inr t \<and>
            json_loads e (unfenced t) = Inl (Raised JSONDecodeError m) \<longrightarrow>
            fst (index_regenerate e data) =
              Inr (JObj [(''error'', JStr (''Invalid JSON response from Gemini: '' @ m))], 400)))"
    using index_regenerate_unconfigured [of data rreq e] index_regenerate_model_error [of data rreq e]
      index_regenerate_unparsable [of data rreq e]
    by blast
qed

theorem downstream_failure_fallback_witness:
  "map_of [(''image'', JStr ''aGk='')] ''image'' = Some (JStr ''aGk='') \<and>
   decode_base64_image (stub_env (Some ''key'') (\<lambda>c. Inl (Raised OtherException ''503 Service Unavailable'')))
     (JStr ''aGk='') = Inr [0x68, 0x69] \<and>
   generate_content (stub_env (Some ''key'') (\<lambda>c. Inl (Raised OtherException ''503 Service Unavailable'')))
     (ANALYZE_PROMPT, Some [0x68, 0x69]) = Inl (Raised OtherException ''503 Service Unavailable'') \<and>
   fst (analyze (stub_env (Some ''key'') (\<lambda>c. Inl (Raised OtherException ''503 Service Unavailable'')))
     (JObj [(''image'', JStr ''aGk='')])) =
     Inr (JObj [(''rawText'', JStr []), (''summary'', JStr []), (''category'', JStr ''other''),
                (''entities'', JArr []), (''suggestedNotebookTitle'', JNull)], 200)"
proof -
  let ?err = "Raised OtherException ''503 Service Unavailable''"
  let ?e = "stub_env (Some ''key'') (\<lambda>c. Inl ?err)"
  have g: "generate_content ?e (ANALYZE_PROMPT, Some [0x68, 0x69]) = Inl ?err"
    by (simp add: stub_env_def)
  have d: "decode_base64_image ?e (JStr ''aGk='') = Inr [0x68, 0x69]"
    by (rule stub_decode)
  have "map_of [(''image'', JStr ''aGk='')] ''image'' = Some (JStr ''aGk='') \<longrightarrow>
      ((\<not> configured ?e \<or> decode_base64_image ?e (JStr ''aGk='') = Inl ?err \<or>
        (\<exists>b. decode_base64_image ?e (JStr ''aGk='') = Inr b \<and>
           (generate_content ?e (ANALYZE_PROMPT, Some b) = Inl ?err \<or>
            (\<exists>t. generate_content ?e (ANALYZE_PROMPT, Some b) = Inr t \<and>
               parse_json_response ?e t = Inl ?err)))) \<longrightarrow>
       fst (analyze ?e (JObj [(''image'', JStr ''aGk='')])) =
         Inr (JObj [(''rawText'', JStr []), (''summary'', JStr []), (''category'', JStr ''other''),
                    (''entities'', JArr []), (''suggestedNotebookTitle'', JNull)], 200)) \<and>
      (\<forall>b t result. configured ?e \<and> decode_base64_image ?e (JStr ''aGk='') = Inr b \<and>
         generate_content ?e (ANALYZE_PROMPT, Some b) = Inr t \<and>
         parse_json_response ?e t = Inr result \<longrightarrow>
         analyze ?e (JObj [(''image'', JStr ''aGk='')]) = (Inr (result, 200), [(ANALYZE_PROMPT, Some b)]))"
    by (rule downstream_failure_fallback
        [of "[(''image'', JStr ''aGk='')]" "JStr ''aGk=''" ?e ?err, THEN conjunct1])
  then show ?thesis
    using g d by auto
qed

text \<open>
  The claim as stated fails in two ways. In \<^verbatim>\<open>api/index.py\<close>, output of the model that parses
  and is not of the operation's shape is not replaced by the fallback body: the empty
  object comes back as the response. In \<^verbatim>\<open>index.py\<close>, a model call that raises is answered
  500.
\<close>

theorem downstream_failure_not_absorbed:
  "fst (analyze (stub_env (Some ''key'') (\<lambda>c. Inr ''{}'')) (JObj [(''image'', JStr ''aGk='')])) =
     Inr (JObj [], 200) \<and>
   JObj [] \<noteq> analyze_fallback \<and>
   fst (index_analyze
          (stub_env (Some ''key'') (\<lambda>c. Inl (Raised OtherException ''503 Service Unavailable'')))
          (JObj [(''image'', JStr ''aGk=''), (''session_id'', JStr ''s1''),
                 (''existing_entities'', JArr [])])) =
     Inr (JObj [(''error'', JStr ''Internal server error'')], 500)"
proof -
  let ?e = "stub_env (Some ''key'') (\<lambda>c. Inr ''{}'')"
  let ?err = "Raised OtherException ''503 Service Unavailable''"
  let ?f = "stub_env (Some ''key'') (\<lambda>c. Inl ?err)"
  let ?req = "\<lparr>req_image = ''aGk='', session_id = ''s1'', existing_entities = []\<rparr>"
  have "configured ?e"
    by (simp add: configured_def stub_env_def)
  moreover have "generate_content ?e (ANALYZE_PROMPT, Some [0x68, 0x69]) = Inr ''{}''"
    by (simp add: stub_env_def)
  ultimately have a: "analyze ?e (JObj [(''image'', JStr ''aGk='')]) =
      (Inr (JObj [], 200), [(ANALYZE_PROMPT, Some [0x68, 0x69])])"
    using stub_decode [of "Some ''key''" "\<lambda>c. Inr ''{}''"]
      stub_parse_empty_object [of "Some ''key''" "\<lambda>c. Inr ''{}''"]
    by (intro analyze_success [where img = "JStr ''aGk=''"]) simp_all
  obtain p where p: "gemini_analyze_prompt ?f (existing_dicts ?req) = Inr p"
    using gemini_analyze_prompt_total by blast
  have c: "configured ?f" and g: "generate_content ?f (p, Some [0x68, 0x69]) = Inl ?err"
    and b: "b64decode ?f (req_image ?req) = Inr [0x68, 0x69]"
    by (simp_all add: configured_def stub_env_def)
  have i: "fst (index_analyze ?f
          (JObj [(''image'', JStr ''aGk=''), (''session_id'', JStr ''s1''),
                 (''existing_entities'', JArr [])])) =
     Inr (JObj [(''error'', JStr ''Internal server error'')], 500)"
    using index_analyze_model_error [OF stub_analyze_request c p b g] by simp
  show ?thesis
    using a i by (simp add: analyze_fallback_def)
qed

subsection \<open>C2: the capability is unavailable\<close>

text \<open>
  C2, as the code has it. When the key is not configured, analyze of \<^verbatim>\<open>api/index.py\<close>, which
  reads the image only, answers a request that carries an image (valid base64 or not, with
  or without a session id and existing entities) with exactly the fallback object and
  status 200, without a model call; analyze of \<^verbatim>\<open>index.py\<close>, which reads the session id and
  the existing entities, answers a request that passes validation with status 400 and the
  error \<^verbatim>\<open>GEMINI_API_KEY not configured\<close>.
\<close>

theorem analyze_capability_unavailable:
  "(\<not> configured e \<and> map_of kvs ''image'' = Some img \<longrightarrow>
      analyze e (JObj kvs) =
        (Inr (JObj [(''rawText'', JStr []), (''summary'', JStr []), (''category'', JStr ''other''),
                    (''entities'', JArr []), (''suggestedNotebookTitle'', JNull)], 200), [])) \<and>
   (\<not> configured e \<and> new_AnalyzeRequest e data = Inr req \<longrightarrow>
      index_analyze e data =
        (Inr (JObj [(''error'', JStr ''GEMINI_API_KEY not configured'')], 400), []))"
  using index_analyze_unconfigured [of e data req]
  by (simp add: analyze_obj analyze_fallback_def split: sum.splits)

theorem analyze_capability_unavailable_witness:
  "\<not> configured (stub_env None (\<lambda>c. Inr [])) \<and>
   b64decode (stub_env None (\<lambda>c. Inr [])) ''aGk='' = Inr [0x68, 0x69] \<and>
   analyze (stub_env None (\<lambda>c. Inr []))
     (JObj [(''image'', JStr ''aGk=''), (''sessionId'', JStr ''s1''),
            (''existingEntities'', JArr [])]) =
     (Inr (JObj [(''rawText'', JStr []), (''summary'', JStr []), (''category'', JStr ''other''),
                 (''entities'', JArr []), (''suggestedNotebookTitle'', JNull)], 200), [])"
proof -
  let ?e = "stub_env None (\<lambda>c. Inr [])"
  let ?kvs = "[(''image'', JStr ''aGk=''), (''sessionId'', JStr ''s1''),
               (''existingEntities'', JArr [])]"
  have c: "\<not> configured ?e"
    by (simp add: configured_def stub_env_def)
  have i: "map_of ?kvs ''image'' = Some (JStr ''aGk='')"
    by simp
  have "analyze ?e (JObj ?kvs) =
     (Inr (JObj [(''rawText'', JStr []), (''summary'', JStr []), (''category'', JStr ''other''),
                 (''entities'', JArr []), (''suggestedNotebookTitle'', JNull)], 200), [])"
    using analyze_capability_unavailable [of ?e ?kvs "JStr ''aGk=''", THEN conjunct1] c i
    by blast
  then show ?thesis
    using c by (simp add: stub_env_def)
qed

text \<open>
  The claim as stated fails on the handler of \<^verbatim>\<open>index.py\<close>: the request of the scenario, a
  valid base64 image, a session id and no existing entity, is answered 400 there.
\<close>

theorem analyze_capability_unavailable_400:
  "index_analyze (stub_env None (\<lambda>c. Inr []))
     (JObj [(''image'', JStr ''aGk=''), (''session_id'', JStr ''s1''),
            (''existing_entities'', JArr [])]) =
   (Inr (JObj [(''error'', JStr ''GEMINI_API_KEY not configured'')], 400), [])"
proof -
  have "\<not> configured (stub_env None (\<lambda>c. Inr []))"
    by (simp add: configured_def stub_env_def)
  then show ?thesis
    by (rule index_analyze_unconfigured [OF stub_analyze_request])
qed

subsection \<open>C3: consolidation after deletions\<close>

text \<open>
  C3, as the code has it. For a regenerate request of \<^verbatim>\<open>index.py\<close> that passes validation,
  with the capability configured, the handler makes one call to the model. Its prompt is
  \<^verbatim>\<open>REGENERATE_PROMPT\<close> of \<^verbatim>\<open>prompts.py\<close> filled with the listing of the remaining screenshots,
  the \<^verbatim>\<open>id\<close>, \<^verbatim>\<open>raw_text\<close> and \<^verbatim>\<open>data\<close> of each screenshot of the request in the request's
  order, as \<^verbatim>\<open>json.dumps\<close> with indent 2 writes it, and with the deleted ids as \<^verbatim>\<open>json.dumps\<close>
  writes them: the listing and the deleted ids are both part of the prompt. The handler
  answers 200 with \<^verbatim>\<open>{"summary": result}\<close>, where \<open>result\<close> is the model's answer as
  \<^verbatim>\<open>json.loads\<close> reads it once the fence is removed. The result is not inspected: no
  source id is stripped and no entity is dropped.
\<close>

theorem regenerate_forwards_model_output:
  assumes "new_RegenerateRequest data = Inr req" "configured e"
    and "gemini_regenerate_prompt e (remaining_dicts req) (deleted_ids req) = Inr p"
    and "generate_content e (p, None) = Inr text" "json_loads e (unfenced text) = Inr result"
  shows "index_regenerate e data = (Inr (JObj [(''summary'', result)], 200), [(p, None)]) \<and>
     format_template e prompts_REGENERATE_PROMPT
       [(''remaining_data'',
           JStr (json_dumps_indent2 e
             (JArr (map (\<lambda>s. JObj [(''id'', JStr (screenshot_id s)),
                                     (''raw_text'', JStr (raw_text s)),
                                     (''data'', JObj (screenshot_data s))])
                        (remaining_screenshots req))))),
        (''deleted_ids'', JStr (json_dumps e (JArr (map JStr (deleted_ids req)))))] = Inr p \<and>
     substring (json_dumps_indent2 e
                  (JArr (map (\<lambda>s. JObj [(''id'', JStr (screenshot_id s)),
                                          (''raw_text'', JStr (raw_text s)),
                                          (''data'', JObj (screenshot_data s))])
                             (remaining_screenshots req)))) p \<and>
     substring (json_dumps e (JArr (map JStr (deleted_ids req)))) p"
  using index_regenerate_forwards [OF assms] gemini_regenerate_prompt_format [OF assms(3)]
    gemini_regenerate_prompt_renders [OF assms(3)]
  by (simp add: remaining_dicts_def)

theorem regenerate_forwards_model_output_witness:
  "\<exists>p. index_regenerate (stub_env (Some ''key'') (\<lambda>c. Inr ''[]''))
      (JObj [(''session_id'', JStr ''s1''), (''deleted_ids'', JArr [JStr ''shot-2'']),
             (''remaining_screenshots'', JArr [])]) =
      (Inr (JObj [(''summary'', JArr [])], 200), [(p, None)]) \<and>
      substring ''[]'' p \<and> substring ''[\"shot-2\"]'' p"
proof -
  let ?e = "stub_env (Some ''key'') (\<lambda>c. Inr ''[]'')"
  let ?req = "\<lparr>regenerate_session_id = ''s1'', deleted_ids = [''shot-2''], remaining_screenshots = []\<rparr>"
  obtain p where p: "gemini_regenerate_prompt ?e (remaining_dicts ?req) (deleted_ids ?req) = Inr p"
    using gemini_regenerate_prompt_total by blast
  have c: "configured ?e" and g: "generate_content ?e (p, None) = Inr ''[]''"
    and l: "json_loads ?e (unfenced ''[]'') = Inr (JArr [])"
    by (simp_all add: configured_def stub_env_def stub_loads_texts)
  have r: "json_dumps_indent2 ?e (JArr []) = ''[]''"
    by (simp add: stub_env_def stub_dumps_indent2_def)
  have d: "json_dumps ?e (JArr [JStr ''shot-2'']) = ''[\"shot-2\"]''"
    by (simp add: stub_env_def stub_dumps_def consolidated_json_def match_json_def)
  show ?thesis
    using regenerate_forwards_model_output [OF stub_regenerate_request c p g l] r d by auto
qed

text \<open>
  The claim as stated fails: with \<^verbatim>\<open>shot-2\<close> deleted and no screenshot remaining, an entity
  whose only source is \<^verbatim>\<open>shot-2\<close> is in the output when the model returns it.
\<close>

theorem regenerate_returns_deleted_source:
  "fst (index_regenerate (stub_env (Some ''key'') (\<lambda>c. Inr consolidated_text))
     (JObj [(''session_id'', JStr ''s1''), (''deleted_ids'', JArr [JStr ''shot-2'']),
            (''remaining_screenshots'', JArr [])])) =
   Inr (JObj [(''summary'',
               JArr [JObj [(''entity_type'', JStr ''hotel''),
                           (''source_screenshot_ids'', JArr [JStr ''shot-2'']),
                           (''data'', JObj [])]])], 200)"
proof -
  let ?e = "stub_env (Some ''key'') (\<lambda>c. Inr consolidated_text)"
  let ?req = "\<lparr>regenerate_session_id = ''s1'', deleted_ids = [''shot-2''], remaining_screenshots = []\<rparr>"
  obtain p where p: "gemini_regenerate_prompt ?e (remaining_dicts ?req) [''shot-2''] = Inr p"
    using gemini_regenerate_prompt_total by blast
  have c: "configured ?e" and g: "generate_content ?e (p, None) = Inr consolidated_text"
    and l: "json_loads ?e (unfenced consolidated_text) = Inr consolidated_json"
    by (simp_all add: configured_def stub_env_def stub_loads_texts)
  show ?thesis
    using stub_index_regenerate [OF g l c p] by (simp add: consolidated_json_def)
qed

subsection \<open>C4: the match decision\<close>




subsection \<open>C5: fence normalisation\<close>

text \<open>
  C5. The parser hands to \<^verbatim>\<open>json.loads\<close> the stripped response text; when that text starts
  with a fence, its first and last lines are removed and the lines between them are kept
  as they are (nothing is left of a text of one or two lines). For a fenced text, an opening
  line, the body and the closing fence, the parser yields what \<^verbatim>\<open>json.loads\<close> yields on the
  body; and it fails exactly when \<^verbatim>\<open>json.loads\<close> fails on the normalised text (in
  \<^verbatim>\<open>index.py\<close>, where the same normalisation is written inline, with a ValueError).
\<close>

theorem parse_json_response_fence:
  "(\<not> startswith (strip t) fence \<longrightarrow> unfenced t = strip t) \<and>
   (startswith (strip t) fence \<longrightarrow>
      (\<forall>a ms z. newline \<notin> set a \<and> newline \<notin> set z \<and> (\<forall>m \<in> set ms. newline \<notin> set m) \<and>
                strip t = str_join [newline] (a # ms @ [z]) \<longrightarrow>
                unfenced t = str_join [newline] ms) \<and>
      (newline \<notin> set (strip t) \<longrightarrow> unfenced t = [])) \<and>
   (\<forall>tag body. newline \<notin> set tag \<longrightarrow>
      parse_json_response e (fence @ tag @ newline # body @ newline # fence) = json_loads e body) \<and>
   parse_json_response e t = json_loads e (unfenced t) \<and>
   (\<forall>v. json_loads e (unfenced t) = Inr v \<longrightarrow> loads_or_ValueError e (unfenced t) = Inr v) \<and>
   (\<forall>m. json_loads e (unfenced t) = Inl (Raised JSONDecodeError m) \<longrightarrow>
      loads_or_ValueError e (unfenced t) =
        Inl (Raised ValueError (''Invalid JSON response from Gemini: '' @ m)))"
  using unfenced_plain [of t] unfenced_lines [of t] unfenced_one_line [of t] unfenced_fenced
    loads_or_ValueError_ok [of e "unfenced t"] loads_or_ValueError_decode_error [of e "unfenced t"]
  by (auto simp add: parse_json_response_def)

theorem parse_json_response_fence_witness:
  "newline \<notin> set ''json'' \<and>
   parse_json_response (stub_env None (\<lambda>c. Inr []))
     (fence @ ''json'' @ newline # ''{}'' @ newline # fence) = Inr (JObj []) \<and>
   \<not> startswith (strip ''nonsense'') fence \<and>
   parse_json_response (stub_env None (\<lambda>c. Inr [])) ''nonsense'' =
     Inl (Raised JSONDecodeError ''Expecting value'')"
proof -
  let ?e = "stub_env None (\<lambda>c. Inr [])"
  let ?t = "fence @ ''json'' @ newline # ''{}'' @ newline # fence"
  have tag: "newline \<notin> set ''json''"
    by (simp add: newline_def)
  have plain: "strip ''nonsense'' = ''nonsense''"
    by (simp add: strip_def isspace_def)
  then have nofence: "\<not> startswith (strip ''nonsense'') fence"
    by (simp add: startswith_def fence_def)
  have "parse_json_response ?e ?t = json_loads ?e ''{}''"
    using parse_json_response_fence [of ?t ?e] tag by blast
  moreover have "parse_json_response ?e ''nonsense'' = json_loads ?e ''nonsense''"
    using parse_json_response_fence [of "''nonsense''" ?e] nofence plain by simp
  ultimately show ?thesis
    using tag nofence
    by (simp add: stub_env_def stub_loads_def consolidated_text_def match_text_def)
qed

subsection \<open>C6: parsing what was parsed\<close>

text \<open>
  C6. Parsing is idempotent: when a text parses to a value, the serialised value parses to
  the same value. Of the library the theorem takes what \<^verbatim>\<open>json\<close> does: a text that
  \<^verbatim>\<open>json.loads\<close> accepts does not start with a fence once stripped, and is accepted stripped
  with the same value; and \<^verbatim>\<open>json.loads\<close> inverts \<^verbatim>\<open>json.dumps\<close> on the values it produces.
\<close>

theorem parse_json_response_idempotent:
  assumes accepts: "\<forall>s v. json_loads e s = Inr v \<longrightarrow>
                      \<not> startswith (strip s) fence \<and> json_loads e (strip s) = Inr v"
    and roundtrip: "\<forall>s v. json_loads e s = Inr v \<longrightarrow> json_loads e (json_dumps e v) = Inr v"
    and parsed: "parse_json_response e t = Inr v"
  shows "parse_json_response e (json_dumps e v) = Inr v"
proof -
  have "json_loads e (unfenced t) = Inr v"
    using parsed by (simp add: parse_json_response_def)
  then have again: "json_loads e (json_dumps e v) = Inr v"
    using roundtrip by blast
  then have "\<not> startswith (strip (json_dumps e v)) fence"
    and "json_loads e (strip (json_dumps e v)) = Inr v"
    using accepts by blast+
  then show ?thesis
    by (simp add: parse_json_response_def unfenced_def)
qed

theorem parse_json_response_idempotent_witness:
  "parse_json_response (stub_env None (\<lambda>c. Inr []))
     (fence @ ''json'' @ newline # ''{}'' @ newline # fence) = Inr (JObj []) \<and>
   json_dumps (stub_env None (\<lambda>c. Inr [])) (JObj []) = ''{}'' \<and>
   parse_json_response (stub_env None (\<lambda>c. Inr [])) ''{}'' = Inr (JObj [])"
proof -
  let ?e = "stub_env None (\<lambda>c. Inr [])"
  have l: "json_loads ?e = stub_loads" and d: "json_dumps ?e = stub_dumps"
    by (simp_all add: stub_env_def)
  have accepts: "\<forall>s v. json_loads ?e s = Inr v \<longrightarrow>
                      \<not> startswith (strip s) fence \<and> json_loads ?e (strip s) = Inr v"
    unfolding l using stub_loads_accepts by blast
  have roundtrip: "\<forall>s v. json_loads ?e s = Inr v \<longrightarrow> json_loads ?e (json_dumps ?e v) = Inr v"
    unfolding l d
    by (auto simp add: stub_loads_def stub_dumps_def consolidated_json_def match_json_def
        split: if_splits)
  have parsed: "parse_json_response ?e (fence @ ''json'' @ newline # ''{}'' @ newline # fence) = Inr (JObj [])"
    using unfenced_fenced [of "''json''" "''{}''"]
    by (simp add: parse_json_response_def l stub_loads_def newline_def)
  show ?thesis
    using parse_json_response_idempotent [OF accepts roundtrip parsed] parsed
    by (simp add: d stub_dumps_def)
qed

subsection \<open>C7: missing request fields\<close>

text \<open>
  C7, as the code has it, on the value \<^verbatim>\<open>request.get_json()\<close> returns and when it raises.

  In \<^verbatim>\<open>api/index.py\<close> a body that is a JSON object lacking a required field is answered 400
  with \<^verbatim>\<open>Missing '<field>' field\<close>, which names the first field missing in the order the
  handler checks them (\<^verbatim>\<open>image\<close> for analyze; \<^verbatim>\<open>sessionId\<close>, \<^verbatim>\<open>screens\<close> for regenerate;
  \<^verbatim>\<open>sessionId\<close>, \<^verbatim>\<open>sessionName\<close>, \<^verbatim>\<open>entities\<close> for summarize), and the model is not called; a
  falsy body (\<^verbatim>\<open>null\<close>, the empty object) is answered the same, with the first field of the
  handler.

  In \<^verbatim>\<open>index.py\<close> a falsy body is answered 400 \<^verbatim>\<open>No JSON data provided\<close>, which names no field.
  An object that is not empty and lacks \<^verbatim>\<open>session_id\<close>, \<^verbatim>\<open>deleted_ids\<close> or
  \<^verbatim>\<open>remaining_screenshots\<close> (regenerate) is answered 400 with the validation errors, among
  them the one of type \<^verbatim>\<open>missing\<close> located at the field, and the model is not called. So is
  an object that is not empty and lacks \<^verbatim>\<open>image\<close> or \<^verbatim>\<open>session_id\<close> (analyze), when the image
  it carries, if that is a str, is one the image validator accepts.

  When \<^verbatim>\<open>request.get_json()\<close> raises, for a request without a body that parses as JSON, the
  answer is not 400: analyze and summarize of \<^verbatim>\<open>api/index.py\<close> answer 200 with their
  fallback body, and both handlers of \<^verbatim>\<open>index.py\<close> answer 500 \<^verbatim>\<open>Internal server error\<close>; the
  model is not called.
\<close>

theorem missing_field_answers_400:
  "(map_of kvs ''image'' = None \<longrightarrow>
      analyze e (JObj kvs) = (Inr (JObj [(''error'', JStr ''Missing 'image' field'')], 400), [])) \<and>
   (map_of kvs ''sessionId'' = None \<longrightarrow>
      regenerate e (JObj kvs) = (Inr (JObj [(''error'', JStr ''Missing 'sessionId' field'')], 400), []) \<and>
      summarize e (JObj kvs) = (Inr (JObj [(''error'', JStr ''Missing 'sessionId' field'')], 400), [])) \<and>
   (map_of kvs ''sessionId'' = Some sid \<and> map_of kvs ''screens'' = None \<longrightarrow>
      regenerate e (JObj kvs) = (Inr (JObj [(''error'', JStr ''Missing 'screens' field'')], 400), [])) \<and>
   (map_of kvs ''sessionId'' = Some sid \<and> map_of kvs ''sessionName'' = None \<longrightarrow>
      summarize e (JObj kvs) = (Inr (JObj [(''error'', JStr ''Missing 'sessionName' field'')], 400), [])) \<and>
   (map_of kvs ''sessionId'' = Some sid \<and> map_of kvs ''sessionName'' = Some name \<and>
    map_of kvs ''entities'' = None \<longrightarrow>
      summarize e (JObj kvs) = (Inr (JObj [(''error'', JStr ''Missing 'entities' field'')], 400), [])) \<and>
   (\<not> truthy data \<longrightarrow>
      analyze e data = (Inr (JObj [(''error'', JStr ''Missing 'image' field'')], 400), []) \<and>
      regenerate e data = (Inr (JObj [(''error'', JStr ''Missing 'sessionId' field'')], 400), []) \<and>
      summarize e data = (Inr (JObj [(''error'', JStr ''Missing 'sessionId' field'')], 400), []) \<and>
      index_analyze e data = (Inr (JObj [(''error'', JStr ''No JSON data provided'')], 400), []) \<and>
      index_regenerate e data = (Inr (JObj [(''error'', JStr ''No JSON data provided'')], 400), [])) \<and>
   (kvs \<noteq> [] \<and> f \<in> {''session_id'', ''deleted_ids'', ''remaining_screenshots''} \<and>
    map_of kvs f = None \<longrightarrow>
      (\<exists>details. index_regenerate e (JObj kvs) =
         (Inr (JObj [(''error'', JStr ''Invalid request''), (''details'', JArr details)], 400), []) \<and>
         JObj [(''type'', JStr ''missing''), (''loc'', JArr [JStr f])] \<in> set details)) \<and>
   (kvs \<noteq> [] \<and> g \<in> {''image'', ''session_id''} \<and> map_of kvs g = None \<and>
    (\<forall>s. map_of kvs ''image'' = Some (JStr s) \<longrightarrow> (\<exists>v. validate_image e s = Inr v)) \<longrightarrow>
      (\<exists>details. index_analyze e (JObj kvs) =
         (Inr (JObj [(''error'', JStr ''Invalid request''), (''details'', JArr details)], 400), []) \<and>
         JObj [(''type'', JStr ''missing''), (''loc'', JArr [JStr g])] \<in> set details)) \<and>
   analyze_view e (Inr data) = analyze e data \<and>
   regenerate_view e (Inr data) = regenerate e data \<and>
   summarize_view e (Inr data) = summarize e data \<and>
   index_analyze_view e (Inr data) = index_analyze e data \<and>
   index_regenerate_view e (Inr data) = index_regenerate e data \<and>
   analyze_view e (Inl raised) =
     (Inr (JObj [(''rawText'', JStr []), (''summary'', JStr []), (''category'', JStr ''other''),
                 (''entities'', JArr []), (''suggestedNotebookTitle'', JNull)], 200), []) \<and>
   summarize_view e (Inl raised) =
     (Inr (JObj [(''condensedSummary'', JStr []), (''keyHighlights'', JArr []),
                 (''recommendations'', JArr []), (''mergedEntities'', JArr []),
                 (''suggestedTitle'', JStr []), (''suggestedQueries'', JArr []),
                 (''keywords'', JArr [])], 200), []) \<and>
   index_analyze_view e (Inl (Raised HTTPException m)) =
     (Inr (JObj [(''error'', JStr ''Internal server error'')], 500), []) \<and>
   index_regenerate_view e (Inl (Raised HTTPException m)) =
     (Inr (JObj [(''error'', JStr ''Internal server error'')], 500), [])"
proof -
  have a: "map_of kvs ''image'' = None \<longrightarrow>
      analyze e (JObj kvs) = (Inr (JObj [(''error'', JStr ''Missing 'image' field'')], 400), [])"
    using analyze_missing [of "JObj kvs" e] by (simp add: error_body_def)
  have b: "map_of kvs ''sessionId'' = None \<longrightarrow>
      regenerate e (JObj kvs) = (Inr (JObj [(''error'', JStr ''Missing 'sessionId' field'')], 400), []) \<and>
      summarize e (JObj kvs) = (Inr (JObj [(''error'', JStr ''Missing 'sessionId' field'')], 400), [])"
    using regenerate_missing(1) [of "JObj kvs" e] summarize_missing(1) [of "JObj kvs" e]
    by (simp add: error_body_def)
  have c: "map_of kvs ''sessionId'' = Some sid \<and> map_of kvs ''screens'' = None \<longrightarrow>
      regenerate e (JObj kvs) = (Inr (JObj [(''error'', JStr ''Missing 'screens' field'')], 400), [])"
    using regenerate_missing(2) [of kvs sid e] by (simp add: error_body_def)
  have d: "map_of kvs ''sessionId'' = Some sid \<and> map_of kvs ''sessionName'' = None \<longrightarrow>
      summarize e (JObj kvs) = (Inr (JObj [(''error'', JStr ''Missing 'sessionName' field'')], 400), [])"
    using summarize_missing(2) [of kvs sid e] by (simp add: error_body_def)
  have f0: "map_of kvs ''sessionId'' = Some sid \<and> map_of kvs ''sessionName'' = Some name \<and>
    map_of kvs ''entities'' = None \<longrightarrow>
      summarize e (JObj kvs) = (Inr (JObj [(''error'', JStr ''Missing 'entities' field'')], 400), [])"
    using summarize_missing(3) [of kvs sid name e] by (simp add: error_body_def)
  have g0: "\<not> truthy data \<longrightarrow>
      analyze e data = (Inr (JObj [(''error'', JStr ''Missing 'image' field'')], 400), []) \<and>
      regenerate e data = (Inr (JObj [(''error'', JStr ''Missing 'sessionId' field'')], 400), []) \<and>
      summarize e data = (Inr (JObj [(''error'', JStr ''Missing 'sessionId' field'')], 400), []) \<and>
      index_analyze e data = (Inr (JObj [(''error'', JStr ''No JSON data provided'')], 400), []) \<and>
      index_regenerate e data = (Inr (JObj [(''error'', JStr ''No JSON data provided'')], 400), [])"
    using analyze_missing [of data e] regenerate_missing(1) [of data e] summarize_missing(1) [of data e]
      index_falsy [of data e]
    by (simp add: error_body_def)
  have v: "analyze_view e (Inr data) = analyze e data"
    "regenerate_view e (Inr data) = regenerate e data"
    "summarize_view e (Inr data) = summarize e data"
    "index_analyze_view e (Inr data) = index_analyze e data"
    "index_regenerate_view e (Inr data) = index_regenerate e data"
    by (simp_all add: views_returned index_analyze_view_def index_regenerate_view_def)
  have w: "analyze_view e (Inl raised) =
     (Inr (JObj [(''rawText'', JStr []), (''summary'', JStr []), (''category'', JStr ''other''),
                 (''entities'', JArr []), (''suggestedNotebookTitle'', JNull)], 200), [])"
    "summarize_view e (Inl raised) =
     (Inr (JObj [(''condensedSummary'', JStr []), (''keyHighlights'', JArr []),
                 (''recommendations'', JArr []), (''mergedEntities'', JArr []),
                 (''suggestedTitle'', JStr []), (''suggestedQueries'', JArr []),
                 (''keywords'', JArr [])], 200), [])"
    by (simp_all add: views_raised analyze_fallback_def summarize_fallback_def)
  have x: "index_analyze_view e (Inl (Raised HTTPException m)) =
     (Inr (JObj [(''error'', JStr ''Internal server error'')], 500), [])"
    "index_regenerate_view e (Inl (Raised HTTPException m)) =
     (Inr (JObj [(''error'', JStr ''Internal server error'')], 500), [])"
    by (simp_all add: index_view_raised index_except_Raised)
  have ir: "kvs \<noteq> [] \<and> f \<in> {''session_id'', ''deleted_ids'', ''remaining_screenshots''} \<and>
    map_of kvs f = None \<longrightarrow>
      (\<exists>details. index_regenerate e (JObj kvs) =
         (Inr (JObj [(''error'', JStr ''Invalid request''), (''details'', JArr details)], 400), []) \<and>
         JObj [(''type'', JStr ''missing''), (''loc'', JArr [JStr f])] \<in> set details)"
    using index_regenerate_missing [of kvs f e] by blast
  have ia: "kvs \<noteq> [] \<and> g \<in> {''image'', ''session_id''} \<and> map_of kvs g = None \<and>
    (\<forall>s. map_of kvs ''image'' = Some (JStr s) \<longrightarrow> (\<exists>v. validate_image e s = Inr v)) \<longrightarrow>
      (\<exists>details. index_analyze e (JObj kvs) =
         (Inr (JObj [(''error'', JStr ''Invalid request''), (''details'', JArr details)], 400), []) \<and>
         JObj [(''type'', JStr ''missing''), (''loc'', JArr [JStr g])] \<in> set details)"
    using index_analyze_missing [of kvs g e] by blast
  show ?thesis
    by (intro conjI) (rule a b c d f0 g0 ir ia v w x)+
qed

theorem missing_field_answers_400_witness:
  "map_of [(''sessionId'', JStr ''s1'')] ''image'' = None \<and>
   configured (stub_env (Some ''key'') (\<lambda>c. Inr ''{}'')) \<and>
   analyze (stub_env (Some ''key'') (\<lambda>c. Inr ''{}'')) (JObj [(''sessionId'', JStr ''s1'')]) =
     (Inr (JObj [(''error'', JStr ''Missing 'image' field'')], 400), []) \<and>
   map_of [(''sessionId'', JStr ''s1'')] ''screens'' = None \<and>
   regenerate (stub_env (Some ''key'') (\<lambda>c. Inr ''{}'')) (JObj [(''sessionId'', JStr ''s1'')]) =
     (Inr (JObj [(''error'', JStr ''Missing 'screens' field'')], 400), []) \<and>
   http_status (summarize (stub_env (Some ''key'') (\<lambda>c. Inr ''{}'')) JNull) = 400 \<and>
   map_of [(''image'', JStr ''aGk='')] ''session_id'' = None \<and>
   validate_image (stub_env (Some ''key'') (\<lambda>c. Inr ''{}'')) ''aGk='' = Inr ''aGk='' \<and>
   (\<exists>details. index_analyze (stub_env (Some ''key'') (\<lambda>c. Inr ''{}''))
        (JObj [(''image'', JStr ''aGk='')]) =
      (Inr (JObj [(''error'', JStr ''Invalid request''), (''details'', JArr details)], 400), []) \<and>
      JObj [(''type'', JStr ''missing''), (''loc'', JArr [JStr ''session_id''])] \<in> set details)"
proof -
  let ?e = "stub_env (Some ''key'') (\<lambda>c. Inr ''{}'')"
  have v: "validate_image ?e ''aGk='' = Inr ''aGk=''"
    by (simp add: validate_image_def startswith_def stub_env_def)
  have api: "analyze ?e (JObj [(''sessionId'', JStr ''s1'')]) =
       (Inr (JObj [(''error'', JStr ''Missing 'image' field'')], 400), []) \<and>
     regenerate ?e (JObj [(''sessionId'', JStr ''s1'')]) =
       (Inr (JObj [(''error'', JStr ''Missing 'screens' field'')], 400), []) \<and>
     http_status (summarize ?e JNull) = 400"
    using missing_field_answers_400
      [where kvs = "[(''sessionId'', JStr ''s1'')]" and e = ?e and sid = "JStr ''s1''" and data = JNull]
    by (simp add: http_status_def)
  have h: "[(''image'', JStr ''aGk='')] \<noteq> [] \<and> ''session_id'' \<in> {''image'', ''session_id''} \<and>
      map_of [(''image'', JStr ''aGk='')] ''session_id'' = None \<and>
      (\<forall>s. map_of [(''image'', JStr ''aGk='')] ''image'' = Some (JStr s) \<longrightarrow>
           (\<exists>v. validate_image ?e s = Inr v))"
    using v by simp
  have "[(''image'', JStr ''aGk='')] \<noteq> [] \<and> ''session_id'' \<in> {''image'', ''session_id''} \<and>
      map_of [(''image'', JStr ''aGk='')] ''session_id'' = None \<and>
      (\<forall>s. map_of [(''image'', JStr ''aGk='')] ''image'' = Some (JStr s) \<longrightarrow>
           (\<exists>v. validate_image ?e s = Inr v)) \<longrightarrow>
      (\<exists>details. index_analyze ?e (JObj [(''image'', JStr ''aGk='')]) =
         (Inr (JObj [(''error'', JStr ''Invalid request''), (''details'', JArr details)], 400), []) \<and>
         JObj [(''type'', JStr ''missing''), (''loc'', JArr [JStr ''session_id''])] \<in> set details)"
    by (rule missing_field_answers_400
        [where kvs = "[(''image'', JStr ''aGk='')]" and e = ?e and g = "''session_id''",
         THEN conjunct2, THEN conjunct2, THEN conjunct2, THEN conjunct2, THEN conjunct2,
         THEN conjunct2, THEN conjunct2, THEN conjunct1])
  then have idx: "\<exists>details. index_analyze ?e (JObj [(''image'', JStr ''aGk='')]) =
         (Inr (JObj [(''error'', JStr ''Invalid request''), (''details'', JArr details)], 400), []) \<and>
         JObj [(''type'', JStr ''missing''), (''loc'', JArr [JStr ''session_id''])] \<in> set details"
    using h by (rule mp)
  have c: "configured ?e"
    by (simp add: configured_def stub_env_def)
  show ?thesis
    using api idx v c by simp
qed

text \<open>
  The claim as stated fails in \<^verbatim>\<open>index.py\<close> for the empty object: it lacks \<^verbatim>\<open>image\<close>, and the
  error that answers it names no field; and for an analyze request that lacks \<^verbatim>\<open>session_id\<close>
  and whose image is \<^verbatim>\<open>data:x\<close>: the validator raises IndexError, and the answer is 500. It
  fails in \<^verbatim>\<open>api/index.py\<close> for a body that is no object, such as \<^verbatim>\<open>true\<close>: the membership test
  raises, and analyze answers 200 with its fallback body; so it does for a request without
  a body, where \<^verbatim>\<open>request.get_json()\<close> raises.
\<close>

theorem empty_body_names_no_field:
  "map_of ([] :: (string \<times> json) list) ''image'' = None \<and>
   index_analyze (stub_env (Some ''key'') (\<lambda>c. Inr ''{}'')) (JObj []) =
     (Inr (JObj [(''error'', JStr ''No JSON data provided'')], 400), []) \<and>
   \<not> substring ''image'' ''No JSON data provided'' \<and>
   analyze (stub_env (Some ''key'') (\<lambda>c. Inr ''{}'')) (JBool True) =
     (Inr (JObj [(''rawText'', JStr []), (''summary'', JStr []), (''category'', JStr ''other''),
                 (''entities'', JArr []), (''suggestedNotebookTitle'', JNull)], 200), []) \<and>
   map_of [(''image'', JStr ''data:x'')] ''session_id'' = None \<and>
   index_analyze (stub_env (Some ''key'') (\<lambda>c. Inr ''{}'')) (JObj [(''image'', JStr ''data:x'')]) =
     (Inr (JObj [(''error'', JStr ''Internal server error'')], 500), []) \<and>
   analyze_view (stub_env (Some ''key'') (\<lambda>c. Inr ''{}''))
       (Inl (Raised HTTPException ''415 Unsupported Media Type'')) =
     (Inr (JObj [(''rawText'', JStr []), (''summary'', JStr []), (''category'', JStr ''other''),
                 (''entities'', JArr []), (''suggestedNotebookTitle'', JNull)], 200), [])"
proof -
  let ?e = "stub_env (Some ''key'') (\<lambda>c. Inr ''{}'')"
  have "validate_image ?e ''data:x'' = Inl (Raised IndexError ''list index out of range'')"
    by (simp add: validate_image_def startswith_def index1_def)
  then have "index_analyze ?e (JObj [(''image'', JStr ''data:x'')]) =
     (Inr (JObj [(''error'', JStr ''Internal server error'')], 500), [])"
    by (intro index_analyze_image_IndexError [where s = "''data:x''"]) simp_all
  then show ?thesis
    using index_falsy(1) [of "JObj []" ?e]
    by (simp add: startswith_def analyze_def analyze_try_def analyze_fallback_def analyze_view_def)
qed

subsection \<open>C8: prompt construction and its placeholders\<close>

text \<open>
  C8, as the code has it. Building the prompt succeeds for every regenerate request of
  \<^verbatim>\<open>api/index.py\<close> whose \<^verbatim>\<open>previousSession\<close> is absent or an object: an absent previous session
  or summary is replaced by \<^verbatim>\<open>No previous context\<close> (an absent category by \<^verbatim>\<open>other\<close>), and the
  placeholder is part of the prompt. It succeeds for every summarize request with its
  fields, and in \<^verbatim>\<open>index.py\<close> for every list of existing entities, the empty list being
  replaced by \<^verbatim>\<open>None\<close>, and for every list of remaining screenshots and deleted ids; the
  prompt built is the one sent to the model.
\<close>

theorem prompt_construction_total:
  "(map_of kvs ''sessionId'' = Some sid \<and> map_of kvs ''previousSession'' = None \<longrightarrow>
      (\<exists>p. regenerate_prompt e (JObj kvs) = Inr p \<and>
         format_template e REGENERATE_PROMPT
           [(''session_id'', sid), (''session_category'', JStr ''other''),
            (''session_summary'', JStr ''No previous context''),
            (''screens_data'',
               JStr (json_dumps_indent2 e
                 (case map_of kvs ''screens'' of None \<Rightarrow> JArr [] | Some s \<Rightarrow> s)))] = Inr p \<and>
         substring ''No previous context'' p)) \<and>
   (map_of kvs ''sessionId'' = Some sid \<and> map_of kvs ''previousSession'' = Some (JObj prev) \<longrightarrow>
      (\<exists>p. regenerate_prompt e (JObj kvs) = Inr p \<and>
         format_template e REGENERATE_PROMPT
           [(''session_id'', sid),
            (''session_category'',
               (case map_of prev ''sessionCategory'' of None \<Rightarrow> JStr ''other'' | Some v \<Rightarrow> v)),
            (''session_summary'',
               (case map_of prev ''sessionSummary'' of
                  None \<Rightarrow> JStr ''No previous context'' | Some v \<Rightarrow> v)),
            (''screens_data'',
               JStr (json_dumps_indent2 e
                 (case map_of kvs ''screens'' of None \<Rightarrow> JArr [] | Some s \<Rightarrow> s)))] = Inr p)) \<and>
   (map_of kvs ''sessionName'' = Some name \<and> map_of kvs ''entities'' = Some ents \<longrightarrow>
      (\<exists>p. summarize_prompt e (JObj kvs) = Inr p)) \<and>
   (\<exists>p. gemini_analyze_prompt e existing = Inr p \<and>
        substring (if existing \<noteq> [] then json_dumps_indent2 e (JArr existing) else ''None'') p \<and>
        (configured e \<and> b64decode e img = Inr image_data \<longrightarrow>
           snd (analyze_with_gemini e img existing) = [(p, Some image_data)])) \<and>
   (\<exists>p. gemini_analyze_prompt e [] = Inr p \<and> substring ''None'' p) \<and>
   (\<exists>p. gemini_regenerate_prompt e remaining deleted = Inr p \<and>
        (configured e \<longrightarrow> snd (regenerate_with_gemini e remaining deleted) = [(p, None)]))"
proof -
  obtain pa where pa: "gemini_analyze_prompt e existing = Inr pa"
    using gemini_analyze_prompt_total by blast
  have a: "\<exists>p. gemini_analyze_prompt e existing = Inr p \<and>
        substring (if existing \<noteq> [] then json_dumps_indent2 e (JArr existing) else ''None'') p \<and>
        (configured e \<and> b64decode e img = Inr image_data \<longrightarrow>
           snd (analyze_with_gemini e img existing) = [(p, Some image_data)])"
    using pa gemini_analyze_prompt_renders [OF pa]
      analyze_with_gemini_calls [of e img image_data existing pa]
    by blast
  obtain pn where pn: "gemini_analyze_prompt e [] = Inr pn"
    using gemini_analyze_prompt_total by blast
  have n: "\<exists>p. gemini_analyze_prompt e [] = Inr p \<and> substring ''None'' p"
    using pn gemini_analyze_prompt_renders [OF pn] by auto
  obtain pr where pr: "gemini_regenerate_prompt e remaining deleted = Inr pr"
    using gemini_regenerate_prompt_total by blast
  have r: "\<exists>p. gemini_regenerate_prompt e remaining deleted = Inr p \<and>
        (configured e \<longrightarrow> snd (regenerate_with_gemini e remaining deleted) = [(p, None)])"
    using pr regenerate_with_gemini_calls [of e remaining deleted pr] by blast
  show ?thesis
    using a n r regenerate_prompt_placeholder [of kvs sid e]
      regenerate_prompt_with_previous [of kvs sid prev e] summarize_prompt_total [of kvs name ents e]
    by blast
qed

theorem prompt_construction_total_witness:
  "map_of [(''sessionId'', JStr ''s1''), (''screens'', JArr [])] ''sessionId'' = Some (JStr ''s1'') \<and>
   map_of [(''sessionId'', JStr ''s1''), (''screens'', JArr [])] ''previousSession'' = None \<and>
   (\<exists>p. regenerate_prompt (stub_env None (\<lambda>c. Inr []))
          (JObj [(''sessionId'', JStr ''s1''), (''screens'', JArr [])]) = Inr p \<and>
        substring ''No previous context'' p)"
proof -
  let ?kvs = "[(''sessionId'', JStr ''s1''), (''screens'', JArr [])]"
  let ?e = "stub_env None (\<lambda>c. Inr [])"
  have k: "map_of ?kvs ''sessionId'' = Some (JStr ''s1'') \<and> map_of ?kvs ''previousSession'' = None"
    by simp
  have "\<exists>p. regenerate_prompt ?e (JObj ?kvs) = Inr p \<and>
         format_template ?e REGENERATE_PROMPT
           [(''session_id'', JStr ''s1''), (''session_category'', JStr ''other''),
            (''session_summary'', JStr ''No previous context''),
            (''screens_data'',
               JStr (json_dumps_indent2 ?e
                 (case map_of ?kvs ''screens'' of None \<Rightarrow> JArr [] | Some s \<Rightarrow> s)))] = Inr p \<and>
         substring ''No previous context'' p"
    using prompt_construction_total [of ?kvs "JStr ''s1''" ?e, THEN conjunct1] k
    by (rule mp)
  then show ?thesis
    using k by blast
qed

text \<open>
  The claim as stated fails for a context whose \<^verbatim>\<open>previousSession\<close> is present and not an
  object: \<^verbatim>\<open>data.get("previousSession", {})\<close> returns the \<^verbatim>\<open>null\<close>, and \<^verbatim>\<open>.get\<close> on it raises.
\<close>

theorem prompt_construction_null_previous_session:
  "regenerate_prompt (stub_env None (\<lambda>c. Inr []))
     (JObj [(''sessionId'', JStr ''s1''), (''screens'', JArr []), (''previousSession'', JNull)]) =
   Inl (Raised AttributeError ''object has no attribute get'')"
  by (simp add: regenerate_prompt_def)

subsection \<open>C9: images wrapped in a data URL\<close>




subsection \<open>C10: the fallback of regenerate\<close>




end
